theory Spec2Isabelle
  imports Main "HOL-Library.Word"
begin

section \<open>Values shared by the dispatcher: bytes, errors, the envelope fields\<close>

text \<open>
  A Go \<open>[]byte\<close> and a Go \<open>string\<close> are both byte sequences; \<open>nil\<close> and the empty
  slice are both \<open>[]\<close> (the dispatcher never tells them apart).
\<close>

type_synonym bytes = string

text \<open>
  A Go \<open>error\<close> value. \<open>FmtError m\<close> is the value \<open>fmt.Errorf\<close> builds (its \<open>Error()\<close>
  text is \<open>m\<close>); \<open>Foreign x\<close> is any other error value, created by an Action, by the
  transport or by \<open>encoding/json\<close>, and opaque to this package. A nil error is \<open>None\<close> of
  \<open>'x go_error option\<close>.
\<close>

datatype 'x go_error = FmtError string | Foreign 'x

text \<open>
  A function that returns \<open>(value, error)\<close> and whose caller reads the value only when the
  error is nil is a sum: \<open>Inl err\<close> for a non-nil error, \<open>Inr v\<close> otherwise.
\<close>

type_synonym ('x, 'a) go_result = "'x go_error + 'a"

text \<open>
  \<open>gjson.Result\<close>, reduced to what \<open>Corp.Do\<close> and \<open>Corp.AccessToken\<close> read from it.
  \<open>Get\<close> on a path that the document does not hold gives the zero \<open>Result\<close>
  (\<open>Missing\<close>), whose \<open>Int()\<close> is 0 and whose \<open>String()\<close> is empty; for a value that
  exists, \<open>Found i s\<close> carries what \<open>Int()\<close> and \<open>String()\<close> return for it. How gjson
  converts a JSON value of each type into these two views is the library's business and
  stays a parameter (\<open>ParseBytes\<close> below).
\<close>

datatype Result = Missing | Found "64 word" string

fun Result_Int :: "Result \<Rightarrow> 64 word" where
  "Result_Int Missing = 0"
| "Result_Int (Found i s) = i"

fun Result_String :: "Result \<Rightarrow> string" where
  "Result_String Missing = []"
| "Result_String (Found i s) = s"

fun Result_Exists :: "Result \<Rightarrow> bool" where
  "Result_Exists Missing = False"
| "Result_Exists (Found i s) = True"

text \<open>A parsed document answers \<open>Get path\<close>; \<open>gjson.ParseBytes\<close> is pure.\<close>

type_synonym gjson = "bytes \<Rightarrow> string \<Rightarrow> Result"

subsection \<open>The verb \<open>%d\<close> of \<open>fmt\<close> on an \<open>int64\<close>\<close>

definition digit_char :: "nat \<Rightarrow> char" where
  "digit_char d = ''0123456789'' ! d"

function decimal :: "nat \<Rightarrow> string" where
  "decimal n = (if n < 10 then [digit_char n] else decimal (n div 10) @ [digit_char (n mod 10)])"
  by pat_completeness auto
termination
  by (relation "measure id") auto

declare decimal.simps [simp del]

definition fmt_d :: "int \<Rightarrow> string" where
  "fmt_d i = (if i < 0 then CHR ''-'' # decimal (nat (- i)) else decimal (nat i))"

text \<open>\<open>fmt.Errorf("%d|%s", code, msg)\<close>: no \<open>%w\<close>, so the error is its text.\<close>

definition Errorf_code_msg :: "64 word \<Rightarrow> string \<Rightarrow> 'x go_error" where
  "Errorf_code_msg code msg = FmtError (fmt_d (sint code) @ ''|'' @ msg)"

section \<open>The capabilities \<open>Corp.Do\<close> consumes\<close>

text \<open>
  \<open>wx.Action\<close> and \<open>wx.HTTPClient\<close> are interfaces: a value carries its methods. Every
  method may have effects (the transport talks to the network, \<open>Decode\<close> writes into the
  storage its closure captured), so each one takes the state of the world \<open>'s\<close> and
  returns it updated. \<open>'c\<close> is \<open>context.Context\<close>, \<open>'f\<close> is \<open>wx.UploadForm\<close>, \<open>'o\<close> is
  \<open>wx.HTTPOption\<close>; the dispatcher only passes them on.
\<close>

record ('s, 'f, 'x) Action =
  Method :: "'s \<Rightarrow> string \<times> 's"
  URL :: "string \<Rightarrow> 's \<Rightarrow> string \<times> 's"
  IsUpload :: "'s \<Rightarrow> bool \<times> 's"
  Body :: "'s \<Rightarrow> ('x, bytes) go_result \<times> 's"
  UploadForm :: "'s \<Rightarrow> ('x, 'f) go_result \<times> 's"
  Decode :: "bytes \<Rightarrow> 's \<Rightarrow> 'x go_error option \<times> 's"

record ('s, 'c, 'f, 'o, 'x) HTTPClient =
  HTTPClient_Do :: "'c \<Rightarrow> string \<Rightarrow> string \<Rightarrow> bytes \<Rightarrow> 'o list \<Rightarrow> 's \<Rightarrow> ('x, bytes) go_result \<times> 's"
  HTTPClient_Upload :: "'c \<Rightarrow> string \<Rightarrow> 'f \<Rightarrow> 'o list \<Rightarrow> 's \<Rightarrow> ('x, bytes) go_result \<times> 's"

record ('s, 'c, 'f, 'o, 'x) Corp =
  corpid :: string
  token :: string
  aeskey :: string
  nonce :: "'s \<Rightarrow> string \<times> 's"
  client :: "('s, 'c, 'f, 'o, 'x) HTTPClient"

section \<open>\<open>Corp.Do\<close>\<close>

text \<open>
  Lines 91 to 101 of \<open>corp.go\<close>: what \<open>Do\<close> does with \<open>(resp, err)\<close> once the transport
  has returned.
\<close>

definition Do_response ::
  "gjson \<Rightarrow> ('s, 'f, 'x) Action \<Rightarrow> ('x, bytes) go_result \<Rightarrow> 's \<Rightarrow> 'x go_error option \<times> 's" where
  "Do_response ParseBytes action res s =
     (case res of
        Inl err \<Rightarrow> (Some err, s)
      | Inr resp \<Rightarrow>
          (let r = ParseBytes resp; code = Result_Int (r ''errcode'') in
           if code \<noteq> 0 then (Some (Errorf_code_msg code (Result_String (r ''errmsg''))), s)
           else Decode action resp s))"

text \<open>
  The whole of \<open>Do\<close>. Go evaluates the calls in an argument list from left to right, so
  \<open>Method\<close> runs before \<open>URL\<close>, and both before the transport. The non-upload branch
  checks \<open>err\<close> once more than the upload branch (lines 86 to 88).
\<close>

definition Do ::
  "gjson \<Rightarrow> ('s, 'c, 'f, 'o, 'x) Corp \<Rightarrow> 'c \<Rightarrow> string \<Rightarrow> ('s, 'f, 'x) Action \<Rightarrow> 'o list
     \<Rightarrow> 's \<Rightarrow> 'x go_error option \<times> 's" where
  "Do ParseBytes corp ctx accessToken action options s0 =
     (case IsUpload action s0 of (up, s1) \<Rightarrow>
        if up then
          (case UploadForm action s1 of
             (Inl ferr, s2) \<Rightarrow> (Some ferr, s2)
           | (Inr form, s2) \<Rightarrow>
               (case URL action accessToken s2 of (url, s3) \<Rightarrow>
                (case HTTPClient_Upload (client corp) ctx url form options s3 of (res, s4) \<Rightarrow>
                   Do_response ParseBytes action res s4)))
        else
          (case Body action s1 of
             (Inl berr, s2) \<Rightarrow> (Some berr, s2)
           | (Inr body, s2) \<Rightarrow>
               (case Method action s2 of (m, s3) \<Rightarrow>
                (case URL action accessToken s3 of (url, s4) \<Rightarrow>
                 (case HTTPClient_Do (client corp) ctx m url body options s4 of
                    (Inl err, s5) \<Rightarrow> (Some err, s5)
                  | (Inr resp, s5) \<Rightarrow> Do_response ParseBytes action (Inr resp) s5)))))"

section \<open>Observing a dispatch\<close>

text \<open>
  What a dispatch calls, in which order and with which results, is observed the way the
  repository's tests observe it: through doubles that forward every call and record it.
  A recorded call carries its arguments and what the call returned.
\<close>

datatype ('c, 'f, 'o, 'x) event =
    Ev_IsUpload bool
  | Ev_Body "('x, bytes) go_result"
  | Ev_UploadForm "('x, 'f) go_result"
  | Ev_Method string
  | Ev_URL string string
  | Ev_Decode bytes "'x go_error option"
  | Ev_HTTPClient_Do 'c string string bytes "'o list" "('x, bytes) go_result"
  | Ev_HTTPClient_Upload 'c string 'f "'o list" "('x, bytes) go_result"

definition record_call ::
  "('s \<Rightarrow> 'a \<times> 's) \<Rightarrow> ('a \<Rightarrow> 'e) \<Rightarrow> 's \<times> 'e list \<Rightarrow> 'a \<times> 's \<times> 'e list" where
  "record_call m ev = (\<lambda>(s, log). case m s of (a, s') \<Rightarrow> (a, s', log @ [ev a]))"

definition traced_Action ::
  "('s, 'f, 'x) Action \<Rightarrow> ('s \<times> ('c, 'f, 'o, 'x) event list, 'f, 'x) Action" where
  "traced_Action a =
     \<lparr> Method = record_call (Method a) Ev_Method,
       URL = (\<lambda>accessToken. record_call (URL a accessToken) (Ev_URL accessToken)),
       IsUpload = record_call (IsUpload a) Ev_IsUpload,
       Body = record_call (Body a) Ev_Body,
       UploadForm = record_call (UploadForm a) Ev_UploadForm,
       Decode = (\<lambda>resp. record_call (Decode a resp) (Ev_Decode resp)) \<rparr>"

definition traced_HTTPClient ::
  "('s, 'c, 'f, 'o, 'x) HTTPClient \<Rightarrow> ('s \<times> ('c, 'f, 'o, 'x) event list, 'c, 'f, 'o, 'x) HTTPClient" where
  "traced_HTTPClient c =
     \<lparr> HTTPClient_Do = (\<lambda>ctx m url body options.
         record_call (HTTPClient_Do c ctx m url body options) (Ev_HTTPClient_Do ctx m url body options)),
       HTTPClient_Upload = (\<lambda>ctx url form options.
         record_call (HTTPClient_Upload c ctx url form options) (Ev_HTTPClient_Upload ctx url form options)) \<rparr>"

text \<open>The same Corp, its transport replaced by the recording double; \<open>nonce\<close> is not recorded.\<close>

definition traced_Corp ::
  "('s, 'c, 'f, 'o, 'x) Corp \<Rightarrow> ('s \<times> ('c, 'f, 'o, 'x) event list, 'c, 'f, 'o, 'x) Corp" where
  "traced_Corp corp =
     \<lparr> corpid = corpid corp, token = token corp, aeskey = aeskey corp,
       nonce = (\<lambda>(s, log). case nonce corp s of (n, s') \<Rightarrow> (n, s', log)),
       client = traced_HTTPClient (client corp) \<rparr>"

subsection \<open>Reading a log\<close>

fun is_Decode :: "('c, 'f, 'o, 'x) event \<Rightarrow> bool" where
  "is_Decode (Ev_Decode resp r) = True"
| "is_Decode _ = False"

fun is_Body :: "('c, 'f, 'o, 'x) event \<Rightarrow> bool" where
  "is_Body (Ev_Body r) = True"
| "is_Body _ = False"

fun is_UploadForm :: "('c, 'f, 'o, 'x) event \<Rightarrow> bool" where
  "is_UploadForm (Ev_UploadForm r) = True"
| "is_UploadForm _ = False"

fun is_transport :: "('c, 'f, 'o, 'x) event \<Rightarrow> bool" where
  "is_transport (Ev_HTTPClient_Do ctx m url body options r) = True"
| "is_transport (Ev_HTTPClient_Upload ctx url form options r) = True"
| "is_transport _ = False"

text \<open>What the transport calls of a log returned, in order.\<close>

fun transport_results :: "('c, 'f, 'o, 'x) event list \<Rightarrow> ('x, bytes) go_result list" where
  "transport_results [] = []"
| "transport_results (Ev_HTTPClient_Do ctx m url body options r # es) = r # transport_results es"
| "transport_results (Ev_HTTPClient_Upload ctx url form options r # es) = r # transport_results es"
| "transport_results (e # es) = transport_results es"

text \<open>The errors that \<open>Body\<close> and \<open>UploadForm\<close> calls of a log returned (\<open>None\<close> for nil).\<close>

fun encode_errors :: "('c, 'f, 'o, 'x) event list \<Rightarrow> 'x go_error option list" where
  "encode_errors [] = []"
| "encode_errors (Ev_Body r # es) = (case r of Inl e \<Rightarrow> Some e | Inr b \<Rightarrow> None) # encode_errors es"
| "encode_errors (Ev_UploadForm r # es) = (case r of Inl e \<Rightarrow> Some e | Inr f \<Rightarrow> None) # encode_errors es"
| "encode_errors (e # es) = encode_errors es"

text \<open>What \<open>IsUpload\<close> calls of a log returned.\<close>

fun IsUpload_results :: "('c, 'f, 'o, 'x) event list \<Rightarrow> bool list" where
  "IsUpload_results [] = []"
| "IsUpload_results (Ev_IsUpload b # es) = b # IsUpload_results es"
| "IsUpload_results (e # es) = IsUpload_results es"

text \<open>What \<open>Decode\<close> calls of a log returned.\<close>

fun Decode_results :: "('c, 'f, 'o, 'x) event list \<Rightarrow> 'x go_error option list" where
  "Decode_results [] = []"
| "Decode_results (Ev_Decode resp r # es) = r # Decode_results es"
| "Decode_results (e # es) = Decode_results es"

subsection \<open>Where a returned error came from\<close>

text \<open>
  A Go error value does not say which step produced it; the log does. The returned value
  \<open>r\<close> is an encoding error when a \<open>Body\<close> or \<open>UploadForm\<close> call of the dispatch
  returned it, a transport error when a transport call returned it, an envelope error
  when it is the \<open>code|message\<close> error of a response the transport delivered, and a
  decode error when a \<open>Decode\<close> call returned it.
\<close>

fun error_of :: "('x, 'a) go_result \<Rightarrow> 'x go_error option" where
  "error_of (Inl e) = Some e"
| "error_of (Inr v) = None"

fun envelope_errors :: "gjson \<Rightarrow> ('x, bytes) go_result list \<Rightarrow> 'x go_error option list" where
  "envelope_errors ParseBytes [] = []"
| "envelope_errors ParseBytes (Inl e # rs) = envelope_errors ParseBytes rs"
| "envelope_errors ParseBytes (Inr resp # rs) =
     (if Result_Int (ParseBytes resp ''errcode'') \<noteq> 0
      then Some (Errorf_code_msg (Result_Int (ParseBytes resp ''errcode''))
                   (Result_String (ParseBytes resp ''errmsg''))) # envelope_errors ParseBytes rs
      else envelope_errors ParseBytes rs)"

definition is_encoding_error :: "('c, 'f, 'o, 'x) event list \<Rightarrow> 'x go_error option \<Rightarrow> bool" where
  "is_encoding_error log r = (r \<noteq> None \<and> r \<in> set (encode_errors log))"

definition is_transport_error :: "('c, 'f, 'o, 'x) event list \<Rightarrow> 'x go_error option \<Rightarrow> bool" where
  "is_transport_error log r = (r \<noteq> None \<and> r \<in> set (map error_of (transport_results log)))"

definition is_envelope_error ::
  "gjson \<Rightarrow> ('c, 'f, 'o, 'x) event list \<Rightarrow> 'x go_error option \<Rightarrow> bool" where
  "is_envelope_error ParseBytes log r = (r \<in> set (envelope_errors ParseBytes (transport_results log)))"

definition is_decode_error :: "('c, 'f, 'o, 'x) event list \<Rightarrow> 'x go_error option \<Rightarrow> bool" where
  "is_decode_error log r = (r \<noteq> None \<and> r \<in> set (Decode_results log))"

definition exactly_one :: "bool list \<Rightarrow> bool" where
  "exactly_one bs = (length (filter id bs) = 1)"

text \<open>
  A step leaves the caller-owned destination alone when the part \<open>dest\<close> of the state is
  the same after it, whatever the state it starts from; \<open>only_Decode_writes\<close> says so of
  every method of the Action but \<open>Decode\<close>, and of the transport.
\<close>

definition preserves :: "('s \<Rightarrow> 'd) \<Rightarrow> ('s \<Rightarrow> 'a \<times> 's) \<Rightarrow> bool" where
  "preserves dest m = (\<forall>t. dest (snd (m t)) = dest t)"

definition only_Decode_writes ::
  "('s \<Rightarrow> 'd) \<Rightarrow> ('s, 'f, 'x) Action \<Rightarrow> ('s, 'c, 'f, 'o, 'x) HTTPClient \<Rightarrow> bool" where
  "only_Decode_writes dest a cl =
     (preserves dest (IsUpload a) \<and> preserves dest (Body a) \<and> preserves dest (UploadForm a) \<and>
      preserves dest (Method a) \<and> (\<forall>tok. preserves dest (URL a tok)) \<and>
      (\<forall>ctx m url body opts. preserves dest (HTTPClient_Do cl ctx m url body opts)) \<and>
      (\<forall>ctx url form opts. preserves dest (HTTPClient_Upload cl ctx url form opts)))"

section \<open>\<open>Corp.AccessToken\<close>\<close>

text \<open>
  \<open>urls.CorpCgiBinAccessToken\<close>, \<open>json.Unmarshal\<close> and the type \<open>AccessToken\<close> (with the
  zero value that \<open>new\<close> allocates) are declared outside \<open>corp.go\<close> and are parameters.
  \<open>json.Unmarshal resp token\<close> returns its error and the token as it has filled it. The
  Go function returns the pair \<open>(*AccessToken, error)\<close>: both halves are options here,
  \<open>None\<close> for nil.
\<close>

definition AccessToken ::
  "gjson \<Rightarrow> (bytes \<Rightarrow> 't \<Rightarrow> 'x go_error option \<times> 't) \<Rightarrow> 't \<Rightarrow> string
     \<Rightarrow> ('s, 'c, 'f, 'o, 'x) Corp \<Rightarrow> 'c \<Rightarrow> string \<Rightarrow> 'o list \<Rightarrow> 's
     \<Rightarrow> ('t option \<times> 'x go_error option) \<times> 's" where
  "AccessToken ParseBytes json_Unmarshal new_AccessToken CorpCgiBinAccessToken corp ctx secret options s0 =
     (case HTTPClient_Do (client corp) ctx ''GET''
             (CorpCgiBinAccessToken @ ''?corpid='' @ corpid corp @ ''&corpsecret='' @ secret)
             [] options s0 of
        (Inl err, s1) \<Rightarrow> ((None, Some err), s1)
      | (Inr resp, s1) \<Rightarrow>
          (let r = ParseBytes resp; code = Result_Int (r ''errcode'') in
           if code \<noteq> 0
           then ((None, Some (Errorf_code_msg code (Result_String (r ''errmsg'')))), s1)
           else (case json_Unmarshal resp new_AccessToken of
                   (Some err, token') \<Rightarrow> ((None, Some err), s1)
                 | (None, token') \<Rightarrow> ((Some token', None), s1))))"

section \<open>\<open>New\<close> and the options\<close>

text \<open>A \<open>CorpOption\<close> is a function that updates the Corp it is given.\<close>

type_synonym ('s, 'c, 'f, 'o, 'x) CorpOption =
  "('s, 'c, 'f, 'o, 'x) Corp \<Rightarrow> ('s, 'c, 'f, 'o, 'x) Corp"

definition WithServerConfig :: "string \<Rightarrow> string \<Rightarrow> ('s, 'c, 'f, 'o, 'x) CorpOption" where
  "WithServerConfig token' aeskey' = (\<lambda>corp. corp\<lparr>token := token', aeskey := aeskey'\<rparr>)"

definition WithNonce :: "('s \<Rightarrow> string \<times> 's) \<Rightarrow> ('s, 'c, 'f, 'o, 'x) CorpOption" where
  "WithNonce f = (\<lambda>corp. corp\<lparr>nonce := f\<rparr>)"

text \<open>\<open>wx.NewHTTPClient\<close>, which wraps an \<open>*http.Client\<close> (\<open>'h\<close>), is a parameter.\<close>

definition WithClient ::
  "('h \<Rightarrow> ('s, 'c, 'f, 'o, 'x) HTTPClient) \<Rightarrow> 'h \<Rightarrow> ('s, 'c, 'f, 'o, 'x) CorpOption" where
  "WithClient NewHTTPClient c = (\<lambda>corp. corp\<lparr>client := NewHTTPClient c\<rparr>)"

definition WithMockClient :: "('s, 'c, 'f, 'o, 'x) HTTPClient \<Rightarrow> ('s, 'c, 'f, 'o, 'x) CorpOption" where
  "WithMockClient c = (\<lambda>corp. corp\<lparr>client := c\<rparr>)"

text \<open>The loop \<open>for _, f := range options { f(corp) }\<close>.\<close>

fun apply_options ::
  "('s, 'c, 'f, 'o, 'x) Corp \<Rightarrow> ('s, 'c, 'f, 'o, 'x) CorpOption list \<Rightarrow> ('s, 'c, 'f, 'o, 'x) Corp" where
  "apply_options corp [] = corp"
| "apply_options corp (f # fs) = apply_options (f corp) fs"

text \<open>
  \<open>wx.NewDefaultClient()\<close> and \<open>wx.Nonce\<close> are parameters: the client that the first
  yields, and the generator that the second is (it draws on the state of the world for
  its randomness). The fields \<open>token\<close> and \<open>aeskey\<close> start as Go's zero string.
\<close>

definition New ::
  "('s, 'c, 'f, 'o, 'x) HTTPClient \<Rightarrow> (nat \<Rightarrow> 's \<Rightarrow> string \<times> 's) \<Rightarrow> string
     \<Rightarrow> ('s, 'c, 'f, 'o, 'x) CorpOption list \<Rightarrow> ('s, 'c, 'f, 'o, 'x) Corp" where
  "New NewDefaultClient Nonce corpid' options =
     apply_options
       \<lparr> corpid = corpid', token = [], aeskey = [], nonce = Nonce 16, client = NewDefaultClient \<rparr>
       options"

section \<open>Concrete dispatches\<close>

text \<open>
  Inputs on which the theorems below are run: three responses and an envelope reader that
  knows them, an Action whose \<open>Decode\<close> stores the response in the destination (the
  state of the world is that destination), an Action whose body and form production
  fail, and a transport that returns a fixed result.
\<close>

definition response_rejected :: bytes where
  \<open>response_rejected = ''{"errcode":40001,"errmsg":"invalid credential"}''\<close>

definition response_ok :: bytes where
  \<open>response_ok = ''{"errcode":0,"errmsg":"ok"}''\<close>

definition response_bare :: bytes where
  \<open>response_bare = ''{"agentlist":[]}''\<close>

definition example_ParseBytes :: gjson where
  "example_ParseBytes resp path =
     (if resp = response_rejected then
        (if path = ''errcode'' then Found 40001 ''40001''
         else if path = ''errmsg'' then Found 0 ''invalid credential'' else Missing)
      else if resp = response_ok then
        (if path = ''errcode'' then Found 0 ''0''
         else if path = ''errmsg'' then Found 0 ''ok'' else Missing)
      else if resp = response_bare then
        (if path = ''agentlist'' then Found 0 ''[]'' else Missing)
      else Missing)"

definition example_Action :: "bool \<Rightarrow> (bytes, unit, nat) Action" where
  "example_Action up =
     \<lparr> Method = (\<lambda>s. (''POST'', s)),
       URL = (\<lambda>accessToken s. (''https://host/cgi-bin/agent/list?access_token='' @ accessToken, s)),
       IsUpload = (\<lambda>s. (up, s)),
       Body = (\<lambda>s. (Inr ''{}'', s)),
       UploadForm = (\<lambda>s. (Inr (), s)),
       Decode = (\<lambda>resp s. (None, resp)) \<rparr>"

definition broken_Action :: "bool \<Rightarrow> (bytes, unit, nat) Action" where
  "broken_Action up =
     (example_Action up)\<lparr> Body := (\<lambda>s. (Inl (Foreign 7), s)), UploadForm := (\<lambda>s. (Inl (Foreign 7), s)) \<rparr>"

definition example_HTTPClient :: "(nat, bytes) go_result \<Rightarrow> (bytes, unit, unit, unit, nat) HTTPClient" where
  "example_HTTPClient res =
     \<lparr> HTTPClient_Do = (\<lambda>ctx m url body options s. (res, s)),
       HTTPClient_Upload = (\<lambda>ctx url form options s. (res, s)) \<rparr>"

definition example_Corp :: "(nat, bytes) go_result \<Rightarrow> (bytes, unit, unit, unit, nat) Corp" where
  "example_Corp res =
     \<lparr> corpid = ''CORPID'', token = [], aeskey = [],
       nonce = (\<lambda>s. (''0123456789abcdef'', s)), client = example_HTTPClient res \<rparr>"

text \<open>
  A recorded dispatch of Action \<open>a\<close> against a transport that returns \<open>res\<close>, the
  destination holding \<open>''dest''\<close> before.
\<close>

definition example_dispatch ::
  "(bytes, unit, nat) Action \<Rightarrow> (nat, bytes) go_result
     \<Rightarrow> nat go_error option \<times> bytes \<times> (unit, unit, unit, nat) event list" where
  "example_dispatch a res =
     Do example_ParseBytes (traced_Corp (example_Corp res)) () ''ACCESS_TOKEN''
        (traced_Action a) [] (''dest'', [])"

text \<open>
  For \<open>AccessToken\<close>: a token response, and a \<open>json.Unmarshal\<close> that reads it (the
  token type is the token string) and fails on anything else.
\<close>

definition response_token :: bytes where
  \<open>response_token = ''{"access_token":"TOKEN","expires_in":7200}''\<close>

definition example_Unmarshal :: "bytes \<Rightarrow> string \<Rightarrow> nat go_error option \<times> string" where
  "example_Unmarshal resp token' =
     (if resp = response_token then (None, ''TOKEN'') else (Some (Foreign 9), token'))"

section \<open>The menu tree and its wire form\<close>

text \<open>
  The wire form is a JSON value. How \<open>encoding/json\<close> writes a value as bytes and reads
  bytes as a value is not part of the menu model: \<open>json.Marshal\<close> and
  \<open>json.Unmarshal\<close> are followed from the value on.
\<close>

datatype json =
    JNull
  | JBool bool
  | JNumber int
  | JString string
  | JArray "json list"
  | JObject "(string \<times> json) list"

text \<open>
  Modelled from the spec: the types \<open>MenuButton\<close>, \<open>MenuMatchRule\<close>, \<open>DefaultMenu\<close>,
  \<open>ConditionalMenu\<close> and \<open>MenuInfo\<close> of package \<open>oa\<close>, whose file is not among the
  sources; \<open>menu_test.go\<close> gives the field names and the JSON keys. In memory a button has
  all its fields (section 3 and 4.4 of the specification); \<open>SubButton\<close> is a Go slice,
  which is nil (\<open>None\<close>) or a sequence.
\<close>

datatype MenuButton = MenuButton
  (MenuButton_Type: string)
  (MenuButton_Name: string)
  (MenuButton_Key: string)
  (MenuButton_URL: string)
  (MenuButton_AppID: string)
  (MenuButton_PagePath: string)
  (MenuButton_MediaID: string)
  (MenuButton_SubButton: "MenuButton list option")

record MenuMatchRule =
  TagID :: string
  Sex :: string
  Country :: string
  Province :: string
  City :: string
  ClientPlatformType :: string
  Language :: string

record DefaultMenu =
  DefaultMenu_Button :: "MenuButton list option"
  DefaultMenu_MenuID :: "64 word"

record ConditionalMenu =
  ConditionalMenu_Button :: "MenuButton list option"
  ConditionalMenu_MatchRule :: "MenuMatchRule option"
  ConditionalMenu_MenuID :: "64 word"

record MenuInfo =
  MenuInfo_DefaultMenu :: "DefaultMenu option"
  MenuInfo_ConditionalMenu :: "ConditionalMenu list option"

text \<open>The elements of a slice; a nil slice has none.\<close>

fun slice_items :: "'a list option \<Rightarrow> 'a list" where
  "slice_items None = []"
| "slice_items (Some xs) = xs"

text \<open>
  Modelled from the spec: the builders of package \<open>oa\<close> that \<open>menu_test.go\<close> calls
  (section 3: click has a key, view a URL, miniprogram an appid, a page path and a URL, a
  group only a name and its sub-buttons). A builder sets the fields it is given and leaves
  the others at Go's zero value.
\<close>

definition ClickButton :: "string \<Rightarrow> string \<Rightarrow> MenuButton" where
  "ClickButton name key = MenuButton ''click'' name key [] [] [] [] None"

definition ViewButton :: "string \<Rightarrow> string \<Rightarrow> MenuButton" where
  "ViewButton name url = MenuButton ''view'' name [] url [] [] [] None"

definition MPButton :: "string \<Rightarrow> string \<Rightarrow> string \<Rightarrow> string \<Rightarrow> MenuButton" where
  "MPButton name appid pagepath redirectURL =
     MenuButton ''miniprogram'' name [] redirectURL appid pagepath [] None"

definition GroupButton :: "string \<Rightarrow> MenuButton list \<Rightarrow> MenuButton" where
  "GroupButton name buttons = MenuButton [] name [] [] [] [] [] (Some buttons)"

subsection \<open>The body of the Create action\<close>

text \<open>A string field that is left out of the wire form when it is empty.\<close>

definition omitempty :: "string \<Rightarrow> string \<Rightarrow> (string \<times> json) list" where
  "omitempty k v = (if v = [] then [] else [(k, JString v)])"

text \<open>
  Modelled from the spec: the body producer of \<open>CreateMenu\<close> in package \<open>oa\<close> (section
  4.4: the body is \<open>{"button": [...]}\<close>, each button serialized with its \<open>sub_button\<close>
  sequence, never null; section 3: \<open>sub_button\<close> is an empty sequence, never absent, when
  a node has no children; section 9: the other fields are omitted when empty).
\<close>

fun encode_MenuButton :: "MenuButton \<Rightarrow> json" where
  "encode_MenuButton (MenuButton ty name key url appid pagepath media sub) =
     JObject (omitempty ''type'' ty @ omitempty ''name'' name @ omitempty ''key'' key @
              omitempty ''url'' url @ omitempty ''appid'' appid @
              omitempty ''pagepath'' pagepath @ omitempty ''media_id'' media @
              [(''sub_button'',
                JArray (case sub of None \<Rightarrow> [] | Some bs \<Rightarrow> map encode_MenuButton bs))])"

definition CreateMenu_Body :: "MenuButton list \<Rightarrow> json" where
  "CreateMenu_Body buttons = JObject [(''button'', JArray (map encode_MenuButton buttons))]"

subsection \<open>The decoder of the Get action\<close>

text \<open>
  Modelled from the spec: what \<open>json.Unmarshal\<close> does for the decoder of \<open>GetMenu\<close>
  (sections 4.1 and 4.4): it walks the members of an object in order and stores each
  known key into its field (one member is one step), so a key that is absent leaves the field at its zero value;
  a JSON null stores nothing; a value of another shape than the field's is a decoding
  error (\<open>None\<close>); unknown keys are skipped. Keys are compared exactly, and a null
  element of an array is read as the zero value of the element.
\<close>

fun decode_string :: "json \<Rightarrow> string \<Rightarrow> string option" where
  "decode_string (JString s) old = Some s"
| "decode_string JNull old = Some old"
| "decode_string _ old = None"

fun decode_int64 :: "json \<Rightarrow> 64 word \<Rightarrow> 64 word option" where
  "decode_int64 (JNumber n) old =
     (if - (2 ^ 63) \<le> n \<and> n < 2 ^ 63 then Some (word_of_int n) else None)"
| "decode_int64 JNull old = Some old"
| "decode_int64 _ old = None"

definition MenuButton_zero :: MenuButton where
  "MenuButton_zero = MenuButton [] [] [] [] [] [] [] None"

fun decode_MenuButton :: "json \<Rightarrow> MenuButton \<Rightarrow> MenuButton option"
  and decode_MenuButton_members :: "(string \<times> json) list \<Rightarrow> MenuButton \<Rightarrow> MenuButton option"
  and decode_MenuButton_member :: "string \<Rightarrow> json \<Rightarrow> MenuButton \<Rightarrow> MenuButton option"
  and decode_MenuButtons :: "json list \<Rightarrow> MenuButton list option"
where
  "decode_MenuButton (JObject kvs) b = decode_MenuButton_members kvs b"
| "decode_MenuButton JNull b = Some b"
| "decode_MenuButton (JBool x) b = None"
| "decode_MenuButton (JNumber n) b = None"
| "decode_MenuButton (JString s) b = None"
| "decode_MenuButton (JArray js) b = None"
| "decode_MenuButton_members [] b = Some b"
| "decode_MenuButton_members ((k, v) # kvs) b =
     (case decode_MenuButton_member k v b of None \<Rightarrow> None
      | Some b' \<Rightarrow> decode_MenuButton_members kvs b')"
| "decode_MenuButton_member k v (MenuButton ty name key url appid pagepath media sub) =
     (if k = ''type'' then
        (case decode_string v ty of None \<Rightarrow> None
         | Some s \<Rightarrow> Some (MenuButton s name key url appid pagepath media sub))
      else if k = ''name'' then
        (case decode_string v name of None \<Rightarrow> None
         | Some s \<Rightarrow> Some (MenuButton ty s key url appid pagepath media sub))
      else if k = ''key'' then
        (case decode_string v key of None \<Rightarrow> None
         | Some s \<Rightarrow> Some (MenuButton ty name s url appid pagepath media sub))
      else if k = ''url'' then
        (case decode_string v url of None \<Rightarrow> None
         | Some s \<Rightarrow> Some (MenuButton ty name key s appid pagepath media sub))
      else if k = ''appid'' then
        (case decode_string v appid of None \<Rightarrow> None
         | Some s \<Rightarrow> Some (MenuButton ty name key url s pagepath media sub))
      else if k = ''pagepath'' then
        (case decode_string v pagepath of None \<Rightarrow> None
         | Some s \<Rightarrow> Some (MenuButton ty name key url appid s media sub))
      else if k = ''media_id'' then
        (case decode_string v media of None \<Rightarrow> None
         | Some s \<Rightarrow> Some (MenuButton ty name key url appid pagepath s sub))
      else if k = ''sub_button'' then
        (case v of
           JArray js \<Rightarrow>
             (case decode_MenuButtons js of None \<Rightarrow> None
              | Some bs \<Rightarrow> Some (MenuButton ty name key url appid pagepath media (Some bs)))
         | JNull \<Rightarrow> Some (MenuButton ty name key url appid pagepath media sub)
         | _ \<Rightarrow> None)
      else Some (MenuButton ty name key url appid pagepath media sub))"
| "decode_MenuButtons [] = Some []"
| "decode_MenuButtons (j # js) =
     (case decode_MenuButton j MenuButton_zero of None \<Rightarrow> None
      | Some b \<Rightarrow> (case decode_MenuButtons js of None \<Rightarrow> None | Some bs \<Rightarrow> Some (b # bs)))"

text \<open>
  Modelled from the spec: the decoding of a \<open>MenuMatchRule\<close> of package \<open>oa\<close> (section 3:
  every field is optional), one step for each member of the object.
\<close>

definition MenuMatchRule_zero :: MenuMatchRule where
  "MenuMatchRule_zero =
     \<lparr> TagID = [], Sex = [], Country = [], Province = [], City = [],
       ClientPlatformType = [], Language = [] \<rparr>"

fun decode_MenuMatchRule_member :: "string \<Rightarrow> json \<Rightarrow> MenuMatchRule \<Rightarrow> MenuMatchRule option" where
  "decode_MenuMatchRule_member k v r =
     (if k = ''tag_id'' then
        (case decode_string v (TagID r) of None \<Rightarrow> None | Some s \<Rightarrow> Some (r\<lparr>TagID := s\<rparr>))
      else if k = ''sex'' then
        (case decode_string v (Sex r) of None \<Rightarrow> None | Some s \<Rightarrow> Some (r\<lparr>Sex := s\<rparr>))
      else if k = ''country'' then
        (case decode_string v (Country r) of None \<Rightarrow> None | Some s \<Rightarrow> Some (r\<lparr>Country := s\<rparr>))
      else if k = ''province'' then
        (case decode_string v (Province r) of None \<Rightarrow> None | Some s \<Rightarrow> Some (r\<lparr>Province := s\<rparr>))
      else if k = ''city'' then
        (case decode_string v (City r) of None \<Rightarrow> None | Some s \<Rightarrow> Some (r\<lparr>City := s\<rparr>))
      else if k = ''client_platform_type'' then
        (case decode_string v (ClientPlatformType r) of None \<Rightarrow> None
         | Some s \<Rightarrow> Some (r\<lparr>ClientPlatformType := s\<rparr>))
      else if k = ''language'' then
        (case decode_string v (Language r) of None \<Rightarrow> None | Some s \<Rightarrow> Some (r\<lparr>Language := s\<rparr>))
      else Some r)"

declare decode_MenuMatchRule_member.simps [simp del]

fun decode_MenuMatchRule_members :: "(string \<times> json) list \<Rightarrow> MenuMatchRule \<Rightarrow> MenuMatchRule option" where
  "decode_MenuMatchRule_members [] r = Some r"
| "decode_MenuMatchRule_members ((k, v) # kvs) r =
     (case decode_MenuMatchRule_member k v r of None \<Rightarrow> None
      | Some r' \<Rightarrow> decode_MenuMatchRule_members kvs r')"

text \<open>
  Modelled from the spec: the decoding of a field of package \<open>oa\<close> that is a pointer to a
  struct (\<open>*MenuMatchRule\<close>, \<open>*DefaultMenu\<close>; section 3: both are optional). An object
  allocates the struct when the pointer is nil and fills it; null makes the pointer nil.
\<close>

fun decode_MenuMatchRule :: "json \<Rightarrow> MenuMatchRule option \<Rightarrow> MenuMatchRule option option" where
  "decode_MenuMatchRule (JObject kvs) old =
     (case decode_MenuMatchRule_members kvs
             (case old of None \<Rightarrow> MenuMatchRule_zero | Some r \<Rightarrow> r) of
        None \<Rightarrow> None | Some r \<Rightarrow> Some (Some r))"
| "decode_MenuMatchRule JNull old = Some None"
| "decode_MenuMatchRule _ old = None"

text \<open>
  Modelled from the spec: the decoding of the \<open>button\<close> sequence of a menu of package
  \<open>oa\<close>, and of the menus themselves (section 3: a menu is its buttons and its numeric
  \<open>MenuID\<close>, a conditional menu has a match rule too). An array replaces the slice, null
  makes it nil.
\<close>

fun decode_Button :: "json \<Rightarrow> MenuButton list option option" where
  "decode_Button (JArray js) =
     (case decode_MenuButtons js of None \<Rightarrow> None | Some bs \<Rightarrow> Some (Some bs))"
| "decode_Button JNull = Some None"
| "decode_Button _ = None"

definition DefaultMenu_zero :: DefaultMenu where
  "DefaultMenu_zero = \<lparr> DefaultMenu_Button = None, DefaultMenu_MenuID = 0 \<rparr>"

fun decode_DefaultMenu_members :: "(string \<times> json) list \<Rightarrow> DefaultMenu \<Rightarrow> DefaultMenu option" where
  "decode_DefaultMenu_members [] m = Some m"
| "decode_DefaultMenu_members ((k, v) # kvs) m =
     (if k = ''button'' then
        (case decode_Button v of None \<Rightarrow> None
         | Some bs \<Rightarrow> decode_DefaultMenu_members kvs (m\<lparr>DefaultMenu_Button := bs\<rparr>))
      else if k = ''menuid'' then
        (case decode_int64 v (DefaultMenu_MenuID m) of None \<Rightarrow> None
         | Some i \<Rightarrow> decode_DefaultMenu_members kvs (m\<lparr>DefaultMenu_MenuID := i\<rparr>))
      else decode_DefaultMenu_members kvs m)"

fun decode_DefaultMenu :: "json \<Rightarrow> DefaultMenu option \<Rightarrow> DefaultMenu option option" where
  "decode_DefaultMenu (JObject kvs) old =
     (case decode_DefaultMenu_members kvs
             (case old of None \<Rightarrow> DefaultMenu_zero | Some m \<Rightarrow> m) of
        None \<Rightarrow> None | Some m \<Rightarrow> Some (Some m))"
| "decode_DefaultMenu JNull old = Some None"
| "decode_DefaultMenu _ old = None"

definition ConditionalMenu_zero :: ConditionalMenu where
  "ConditionalMenu_zero =
     \<lparr> ConditionalMenu_Button = None, ConditionalMenu_MatchRule = None,
       ConditionalMenu_MenuID = 0 \<rparr>"

fun decode_ConditionalMenu_members ::
  "(string \<times> json) list \<Rightarrow> ConditionalMenu \<Rightarrow> ConditionalMenu option" where
  "decode_ConditionalMenu_members [] m = Some m"
| "decode_ConditionalMenu_members ((k, v) # kvs) m =
     (if k = ''button'' then
        (case decode_Button v of None \<Rightarrow> None
         | Some bs \<Rightarrow> decode_ConditionalMenu_members kvs (m\<lparr>ConditionalMenu_Button := bs\<rparr>))
      else if k = ''matchrule'' then
        (case decode_MenuMatchRule v (ConditionalMenu_MatchRule m) of None \<Rightarrow> None
         | Some r \<Rightarrow> decode_ConditionalMenu_members kvs (m\<lparr>ConditionalMenu_MatchRule := r\<rparr>))
      else if k = ''menuid'' then
        (case decode_int64 v (ConditionalMenu_MenuID m) of None \<Rightarrow> None
         | Some i \<Rightarrow> decode_ConditionalMenu_members kvs (m\<lparr>ConditionalMenu_MenuID := i\<rparr>))
      else decode_ConditionalMenu_members kvs m)"

fun decode_ConditionalMenus :: "json list \<Rightarrow> ConditionalMenu list option" where
  "decode_ConditionalMenus [] = Some []"
| "decode_ConditionalMenus (JObject kvs # js) =
     (case decode_ConditionalMenu_members kvs ConditionalMenu_zero of None \<Rightarrow> None
      | Some m \<Rightarrow> (case decode_ConditionalMenus js of None \<Rightarrow> None | Some ms \<Rightarrow> Some (m # ms)))"
| "decode_ConditionalMenus (JNull # js) =
     (case decode_ConditionalMenus js of None \<Rightarrow> None | Some ms \<Rightarrow> Some (ConditionalMenu_zero # ms))"
| "decode_ConditionalMenus (j # js) = None"

text \<open>
  Modelled from the spec: the decoding of the \<open>MenuInfo\<close> of package \<open>oa\<close> (section 3: one
  optional default menu and a sequence of conditional menus).
\<close>

definition MenuInfo_zero :: MenuInfo where
  "MenuInfo_zero = \<lparr> MenuInfo_DefaultMenu = None, MenuInfo_ConditionalMenu = None \<rparr>"

fun decode_MenuInfo_members :: "(string \<times> json) list \<Rightarrow> MenuInfo \<Rightarrow> MenuInfo option" where
  "decode_MenuInfo_members [] i = Some i"
| "decode_MenuInfo_members ((k, v) # kvs) i =
     (if k = ''menu'' then
        (case decode_DefaultMenu v (MenuInfo_DefaultMenu i) of None \<Rightarrow> None
         | Some m \<Rightarrow> decode_MenuInfo_members kvs (i\<lparr>MenuInfo_DefaultMenu := m\<rparr>))
      else if k = ''conditionalmenu'' then
        (case v of
           JArray js \<Rightarrow>
             (case decode_ConditionalMenus js of None \<Rightarrow> None
              | Some ms \<Rightarrow> decode_MenuInfo_members kvs (i\<lparr>MenuInfo_ConditionalMenu := Some ms\<rparr>))
         | JNull \<Rightarrow> decode_MenuInfo_members kvs (i\<lparr>MenuInfo_ConditionalMenu := None\<rparr>)
         | _ \<Rightarrow> None)
      else decode_MenuInfo_members kvs i)"

text \<open>
  Modelled from the spec: the decode step of \<open>GetMenu dest\<close> of package \<open>oa\<close> (section
  4.4: \<open>menu\<close> is the default menu, \<open>conditionalmenu\<close> the conditional ones, either may
  be absent). The response, as a JSON value, is stored into the \<open>MenuInfo\<close> that the
  caller allocated.
\<close>

fun GetMenu_Decode :: "json \<Rightarrow> MenuInfo \<Rightarrow> MenuInfo option" where
  "GetMenu_Decode (JObject kvs) dest = decode_MenuInfo_members kvs dest"
| "GetMenu_Decode JNull dest = Some dest"
| "GetMenu_Decode _ dest = None"

text \<open>
  What a button becomes on the way through the wire: the same seven strings, and a
  \<open>SubButton\<close> that is a sequence (empty for a nil slice), at every node.
\<close>

fun roundtrip_MenuButton :: "MenuButton \<Rightarrow> MenuButton" where
  "roundtrip_MenuButton (MenuButton ty name key url appid pagepath media sub) =
     MenuButton ty name key url appid pagepath media
       (Some (case sub of None \<Rightarrow> [] | Some bs \<Rightarrow> map roundtrip_MenuButton bs))"

subsection \<open>The response of \<open>TestGetMenu\<close>\<close>

text \<open>The names of the test are Chinese; these are their UTF-8 bytes.\<close>

definition name_today_music :: string where
  "name_today_music = [CHR 0xE4, CHR 0xBB, CHR 0x8A, CHR 0xE6, CHR 0x97, CHR 0xA5, CHR 0xE6, CHR 0xAD, CHR 0x8C, CHR 0xE6, CHR 0x9B, CHR 0xB2]"

definition name_menu :: string where
  "name_menu = [CHR 0xE8, CHR 0x8F, CHR 0x9C, CHR 0xE5, CHR 0x8D, CHR 0x95]"

definition name_search :: string where
  "name_search = [CHR 0xE6, CHR 0x90, CHR 0x9C, CHR 0xE7, CHR 0xB4, CHR 0xA2]"

definition name_video :: string where
  "name_video = [CHR 0xE8, CHR 0xA7, CHR 0x86, CHR 0xE9, CHR 0xA2, CHR 0x91]"

definition name_like_us :: string where
  "name_like_us = [CHR 0xE8, CHR 0xB5, CHR 0x9E, CHR 0xE4, CHR 0xB8, CHR 0x80, CHR 0xE4, CHR 0xB8, CHR 0x8B, CHR 0xE6, CHR 0x88, CHR 0x91, CHR 0xE4, CHR 0xBB, CHR 0xAC]"

definition name_china :: string where
  "name_china = [CHR 0xE4, CHR 0xB8, CHR 0xAD, CHR 0xE5, CHR 0x9B, CHR 0xBD]"

definition name_guangdong :: string where
  "name_guangdong = [CHR 0xE5, CHR 0xB9, CHR 0xBF, CHR 0xE4, CHR 0xB8, CHR 0x9C]"

definition name_guangzhou :: string where
  "name_guangzhou = [CHR 0xE5, CHR 0xB9, CHR 0xBF, CHR 0xE5, CHR 0xB7, CHR 0x9E]"

definition leaf_json :: "string \<Rightarrow> string \<Rightarrow> string \<Rightarrow> string \<Rightarrow> json" where
  "leaf_json ty name k v =
     JObject [(''type'', JString ty), (''name'', JString name), (k, JString v),
              (''sub_button'', JArray [])]"

definition TestGetMenu_matchrule :: json where
  "TestGetMenu_matchrule =
     JObject [(''tag_id'', JString ''2''), (''sex'', JString ''1''),
              (''country'', JString name_china), (''province'', JString name_guangdong),
              (''city'', JString name_guangzhou), (''client_platform_type'', JString ''2'')]"

definition TestGetMenu_group :: json where
  "TestGetMenu_group =
     JObject [(''name'', JString name_menu),
              (''sub_button'', JArray
                 [leaf_json ''view'' name_search ''url'' ''http://www.soso.com/'',
                  leaf_json ''view'' name_video ''url'' ''http://v.qq.com/'',
                  leaf_json ''click'' name_like_us ''key'' ''V1001_GOOD''])]"

definition TestGetMenu_response :: json where
  "TestGetMenu_response =
     JObject
       [(''menu'', JObject
           [(''button'', JArray [leaf_json ''click'' name_today_music ''key'' ''V1001_TODAY_MUSIC'']),
            (''menuid'', JNumber 208396938)]),
        (''conditionalmenu'', JArray
           [JObject
              [(''button'', JArray
                  [leaf_json ''click'' name_today_music ''key'' ''V1001_TODAY_MUSIC'',
                   TestGetMenu_group]),
               (''matchrule'', TestGetMenu_matchrule),
               (''menuid'', JNumber 208396993)]])]"

definition TestGetMenu_expected :: MenuInfo where
  "TestGetMenu_expected =
     \<lparr> MenuInfo_DefaultMenu = Some
         \<lparr> DefaultMenu_Button = Some
             [MenuButton ''click'' name_today_music ''V1001_TODAY_MUSIC'' [] [] [] [] (Some [])],
           DefaultMenu_MenuID = 208396938 \<rparr>,
       MenuInfo_ConditionalMenu = Some
         [\<lparr> ConditionalMenu_Button = Some
              [MenuButton ''click'' name_today_music ''V1001_TODAY_MUSIC'' [] [] [] [] (Some []),
               MenuButton [] name_menu [] [] [] [] []
                 (Some [MenuButton ''view'' name_search [] ''http://www.soso.com/'' [] [] [] (Some []),
                        MenuButton ''view'' name_video [] ''http://v.qq.com/'' [] [] [] (Some []),
                        MenuButton ''click'' name_like_us ''V1001_GOOD'' [] [] [] [] (Some [])])],
            ConditionalMenu_MatchRule = Some
              \<lparr> TagID = ''2'', Sex = ''1'', Country = name_china, Province = name_guangdong,
                City = name_guangzhou, ClientPlatformType = ''2'', Language = [] \<rparr>,
            ConditionalMenu_MenuID = 208396993 \<rparr>] \<rparr>"

text \<open>The menu that \<open>TestCreateMenu\<close> builds.\<close>

definition TestCreateMenu_buttons :: "MenuButton list" where
  "TestCreateMenu_buttons =
     [ClickButton name_today_music ''V1001_TODAY_MUSIC'',
      GroupButton name_menu
        [ViewButton name_search ''http://www.soso.com/'',
         MPButton ''wxa'' ''wx286b93c14bbf93aa'' ''pages/lunar/index'' ''http://mp.weixin.qq.com'',
         ClickButton name_like_us ''V1001_GOOD'']]"

text \<open>Every node of a button tree has a \<open>SubButton\<close> that is a sequence, not nil.\<close>

fun SubButton_never_nil :: "MenuButton \<Rightarrow> bool" where
  "SubButton_never_nil (MenuButton ty name key url appid pagepath media sub) =
     (case sub of None \<Rightarrow> False | Some bs \<Rightarrow> list_all SubButton_never_nil bs)"

text \<open>The member of a JSON object that \<open>json.Unmarshal\<close> reads for a key: the last one.\<close>

fun member :: "string \<Rightarrow> json \<Rightarrow> json option" where
  "member k (JObject kvs) = map_of (rev kvs) k"
| "member k _ = None"

section \<open>Properties of the recording doubles\<close>

lemma transport_results_append [simp]:
  "transport_results (xs @ ys) = transport_results xs @ transport_results ys"
  by (induction xs rule: transport_results.induct) simp_all

lemma encode_errors_append [simp]:
  "encode_errors (xs @ ys) = encode_errors xs @ encode_errors ys"
  by (induction xs rule: encode_errors.induct) simp_all

lemma IsUpload_results_append [simp]:
  "IsUpload_results (xs @ ys) = IsUpload_results xs @ IsUpload_results ys"
  by (induction xs rule: IsUpload_results.induct) simp_all

text \<open>What each method of a recording double does.\<close>

lemma traced_Action_simps [simp]:
  "IsUpload (traced_Action a) (s, log) =
     (case IsUpload a s of (b, s') \<Rightarrow> (b, s', log @ [Ev_IsUpload b]))"
  "Body (traced_Action a) (s, log) =
     (case Body a s of (r, s') \<Rightarrow> (r, s', log @ [Ev_Body r]))"
  "UploadForm (traced_Action a) (s, log) =
     (case UploadForm a s of (r, s') \<Rightarrow> (r, s', log @ [Ev_UploadForm r]))"
  "Method (traced_Action a) (s, log) =
     (case Method a s of (m, s') \<Rightarrow> (m, s', log @ [Ev_Method m]))"
  "URL (traced_Action a) tok (s, log) =
     (case URL a tok s of (u, s') \<Rightarrow> (u, s', log @ [Ev_URL tok u]))"
  "Decode (traced_Action a) resp (s, log) =
     (case Decode a resp s of (r, s') \<Rightarrow> (r, s', log @ [Ev_Decode resp r]))"
  by (simp_all add: traced_Action_def record_call_def)

lemma traced_Corp_client_simps [simp]:
  "HTTPClient_Do (client (traced_Corp corp)) ctx m url body opts (s, log) =
     (case HTTPClient_Do (client corp) ctx m url body opts s of
        (r, s') \<Rightarrow> (r, s', log @ [Ev_HTTPClient_Do ctx m url body opts r]))"
  "HTTPClient_Upload (client (traced_Corp corp)) ctx url form opts (s, log) =
     (case HTTPClient_Upload (client corp) ctx url form opts s of
        (r, s') \<Rightarrow> (r, s', log @ [Ev_HTTPClient_Upload ctx url form opts r]))"
  by (simp_all add: traced_Corp_def traced_HTTPClient_def record_call_def)

text \<open>
  Recording changes nothing: the recorded dispatch returns the error and leaves the state
  that the plain dispatch does. Each theorem below about a recorded dispatch therefore
  ends with the plain one, \<open>Do P corp ctx tok a opts s = (r, s')\<close>.
\<close>

lemma Do_response_traced:
  "Do_response P (traced_Action a) res (s, log) =
     (case Do_response P a res s of (r, s') \<Rightarrow>
        (r, s', log @ (case res of Inl err \<Rightarrow> []
                      | Inr resp \<Rightarrow> if Result_Int (P resp ''errcode'') \<noteq> 0 then []
                                   else [Ev_Decode resp r])))"
  by (simp add: Do_response_def Let_def split: sum.split prod.split)

lemma Do_traced_result:
  "(case Do P (traced_Corp corp) ctx tok (traced_Action a) opts (s, log) of
      (r, s', log') \<Rightarrow> (r, s')) = Do P corp ctx tok a opts s"
  by (simp add: Do_def Do_response_traced split: prod.split sum.split)

lemma Do_plain:
  "Do P (traced_Corp corp) ctx tok (traced_Action a) opts (s, log) = (r, s', log') \<Longrightarrow>
     Do P corp ctx tok a opts s = (r, s')"
  using Do_traced_result [of P corp ctx tok a opts s log] by simp

section \<open>The paths of a dispatch\<close>

text \<open>
  A recorded dispatch takes one of eight paths: body or form production fails; the
  transport fails; the envelope carries a non-zero code; or \<open>Decode\<close> runs (each for
  an upload and for a plain request). Each case gives the calls made, their results and
  the states between them.
\<close>

lemma Do_traced_cases:
  assumes run: "Do P (traced_Corp corp) ctx tok (traced_Action a) opts (s, []) = (r, s', log)"
  obtains
    (form_error) e s1 where
      "IsUpload a s = (True, s1)" "UploadForm a s1 = (Inl e, s')"
      "r = Some e" "log = [Ev_IsUpload True, Ev_UploadForm (Inl e)]"
  | (body_error) e s1 where
      "IsUpload a s = (False, s1)" "Body a s1 = (Inl e, s')"
      "r = Some e" "log = [Ev_IsUpload False, Ev_Body (Inl e)]"
  | (upload_error) e s1 s2 s3 form url where
      "IsUpload a s = (True, s1)" "UploadForm a s1 = (Inr form, s2)" "URL a tok s2 = (url, s3)"
      "HTTPClient_Upload (client corp) ctx url form opts s3 = (Inl e, s')"
      "r = Some e"
      "log = [Ev_IsUpload True, Ev_UploadForm (Inr form), Ev_URL tok url,
              Ev_HTTPClient_Upload ctx url form opts (Inl e)]"
  | (do_error) e s1 s2 s3 s4 body m url where
      "IsUpload a s = (False, s1)" "Body a s1 = (Inr body, s2)" "Method a s2 = (m, s3)"
      "URL a tok s3 = (url, s4)"
      "HTTPClient_Do (client corp) ctx m url body opts s4 = (Inl e, s')"
      "r = Some e"
      "log = [Ev_IsUpload False, Ev_Body (Inr body), Ev_Method m, Ev_URL tok url,
              Ev_HTTPClient_Do ctx m url body opts (Inl e)]"
  | (upload_envelope) resp s1 s2 s3 form url where
      "IsUpload a s = (True, s1)" "UploadForm a s1 = (Inr form, s2)" "URL a tok s2 = (url, s3)"
      "HTTPClient_Upload (client corp) ctx url form opts s3 = (Inr resp, s')"
      "Result_Int (P resp ''errcode'') \<noteq> 0"
      "r = Some (Errorf_code_msg (Result_Int (P resp ''errcode'')) (Result_String (P resp ''errmsg'')))"
      "log = [Ev_IsUpload True, Ev_UploadForm (Inr form), Ev_URL tok url,
              Ev_HTTPClient_Upload ctx url form opts (Inr resp)]"
  | (do_envelope) resp s1 s2 s3 s4 body m url where
      "IsUpload a s = (False, s1)" "Body a s1 = (Inr body, s2)" "Method a s2 = (m, s3)"
      "URL a tok s3 = (url, s4)"
      "HTTPClient_Do (client corp) ctx m url body opts s4 = (Inr resp, s')"
      "Result_Int (P resp ''errcode'') \<noteq> 0"
      "r = Some (Errorf_code_msg (Result_Int (P resp ''errcode'')) (Result_String (P resp ''errmsg'')))"
      "log = [Ev_IsUpload False, Ev_Body (Inr body), Ev_Method m, Ev_URL tok url,
              Ev_HTTPClient_Do ctx m url body opts (Inr resp)]"
  | (upload_decode) resp s1 s2 s3 s4 form url where
      "IsUpload a s = (True, s1)" "UploadForm a s1 = (Inr form, s2)" "URL a tok s2 = (url, s3)"
      "HTTPClient_Upload (client corp) ctx url form opts s3 = (Inr resp, s4)"
      "Result_Int (P resp ''errcode'') = 0"
      "Decode a resp s4 = (r, s')"
      "log = [Ev_IsUpload True, Ev_UploadForm (Inr form), Ev_URL tok url,
              Ev_HTTPClient_Upload ctx url form opts (Inr resp), Ev_Decode resp r]"
  | (do_decode) resp s1 s2 s3 s4 s5 body m url where
      "IsUpload a s = (False, s1)" "Body a s1 = (Inr body, s2)" "Method a s2 = (m, s3)"
      "URL a tok s3 = (url, s4)"
      "HTTPClient_Do (client corp) ctx m url body opts s4 = (Inr resp, s5)"
      "Result_Int (P resp ''errcode'') = 0"
      "Decode a resp s5 = (r, s')"
      "log = [Ev_IsUpload False, Ev_Body (Inr body), Ev_Method m, Ev_URL tok url,
              Ev_HTTPClient_Do ctx m url body opts (Inr resp), Ev_Decode resp r]"
proof -
  obtain up s1 where iu: "IsUpload a s = (up, s1)"
    by (cases "IsUpload a s")
  show thesis
  proof (cases up)
    case True
    obtain fr s2 where uf: "UploadForm a s1 = (fr, s2)"
      by (cases "UploadForm a s1")
    show thesis
    proof (cases fr)
      case (Inl e)
      with run iu True uf show thesis
        by (intro form_error [of s1 e]) (simp_all add: Do_def)
    next
      case (Inr form)
      obtain url s3 where u: "URL a tok s2 = (url, s3)"
        by (cases "URL a tok s2")
      obtain res s4 where t: "HTTPClient_Upload (client corp) ctx url form opts s3 = (res, s4)"
        by (cases "HTTPClient_Upload (client corp) ctx url form opts s3")
      show thesis
      proof (cases res)
        case (Inl e)
        with run iu True uf Inr u t show thesis
          by (intro upload_error [of s1 form s2 url s3 e]) (simp_all add: Do_def Do_response_def)
      next
        case resp: (Inr resp)
        show thesis
        proof (cases "Result_Int (P resp ''errcode'') = 0")
          case False
          with run iu True uf Inr u t resp show thesis
            by (intro upload_envelope [of s1 form s2 url s3 resp])
              (simp_all add: Do_def Do_response_def Let_def)
        next
          case z: True
          obtain dr s5 where d: "Decode a resp s4 = (dr, s5)"
            by (cases "Decode a resp s4")
          with run iu True uf Inr u t resp z show thesis
            by (intro upload_decode [of s1 form s2 url s3 resp s4])
              (auto simp: Do_def Do_response_def Let_def)
        qed
      qed
    qed
  next
    case False
    obtain br s2 where b: "Body a s1 = (br, s2)"
      by (cases "Body a s1")
    show thesis
    proof (cases br)
      case (Inl e)
      with run iu False b show thesis
        by (intro body_error [of s1 e]) (simp_all add: Do_def)
    next
      case (Inr body)
      obtain m s3 where me: "Method a s2 = (m, s3)"
        by (cases "Method a s2")
      obtain url s4 where u: "URL a tok s3 = (url, s4)"
        by (cases "URL a tok s3")
      obtain res s5 where t: "HTTPClient_Do (client corp) ctx m url body opts s4 = (res, s5)"
        by (cases "HTTPClient_Do (client corp) ctx m url body opts s4")
      show thesis
      proof (cases res)
        case (Inl e)
        with run iu False b Inr me u t show thesis
          by (intro do_error [of s1 body s2 m s3 url s4 e]) (simp_all add: Do_def Do_response_def)
      next
        case resp: (Inr resp)
        show thesis
        proof (cases "Result_Int (P resp ''errcode'') = 0")
          case nz: False
          with run iu False b Inr me u t resp show thesis
            by (intro do_envelope [of s1 body s2 m s3 url s4 resp])
              (simp_all add: Do_def Do_response_def Let_def)
        next
          case z: True
          obtain dr s6 where d: "Decode a resp s5 = (dr, s6)"
            by (cases "Decode a resp s5")
          with run iu False b Inr me u t resp z show thesis
            by (intro do_decode [of s1 body s2 m s3 url s4 resp s5])
              (auto simp: Do_def Do_response_def Let_def)
        qed
      qed
    qed
  qed
qed

section \<open>The concrete dispatches, evaluated\<close>

lemma example_run:
  "Do example_ParseBytes (traced_Corp (example_Corp res)) () ''ACCESS_TOKEN''
     (traced_Action a) [] (''dest'', [])
   = (fst (example_dispatch a res), fst (snd (example_dispatch a res)),
      snd (snd (example_dispatch a res)))"
  by (simp add: example_dispatch_def)

lemma example_ParseBytes_simps [simp]:
  "example_ParseBytes response_rejected ''errcode'' = Found 40001 ''40001''"
  "example_ParseBytes response_rejected ''errmsg'' = Found 0 ''invalid credential''"
  "example_ParseBytes response_ok ''errcode'' = Found 0 ''0''"
  "example_ParseBytes response_ok ''errmsg'' = Found 0 ''ok''"
  "example_ParseBytes response_bare ''errcode'' = Missing"
  by (simp_all add: example_ParseBytes_def response_rejected_def response_ok_def
      response_bare_def)

lemma fmt_d_40001: "fmt_d 40001 = ''40001''"
  by (simp add: fmt_d_def decimal.simps digit_char_def)

lemma fmt_d_minus_1: "fmt_d (sint (- 1 :: 64 word)) = ''-1''"
  by (simp add: fmt_d_def decimal.simps digit_char_def)

lemma dispatch_rejected:
  "example_dispatch (example_Action False) (Inr response_rejected) =
     (Some (FmtError ''40001|invalid credential''), ''dest'',
      [Ev_IsUpload False, Ev_Body (Inr ''{}''), Ev_Method ''POST'',
       Ev_URL ''ACCESS_TOKEN'' ''https://host/cgi-bin/agent/list?access_token=ACCESS_TOKEN'',
       Ev_HTTPClient_Do () ''POST'' ''https://host/cgi-bin/agent/list?access_token=ACCESS_TOKEN''
         ''{}'' [] (Inr response_rejected)])"
  by (simp add: example_dispatch_def Do_def Do_response_def example_Corp_def
      example_HTTPClient_def example_Action_def Let_def Errorf_code_msg_def fmt_d_40001)

lemma dispatch_ok:
  "example_dispatch (example_Action False) (Inr response_ok) =
     (None, response_ok,
      [Ev_IsUpload False, Ev_Body (Inr ''{}''), Ev_Method ''POST'',
       Ev_URL ''ACCESS_TOKEN'' ''https://host/cgi-bin/agent/list?access_token=ACCESS_TOKEN'',
       Ev_HTTPClient_Do () ''POST'' ''https://host/cgi-bin/agent/list?access_token=ACCESS_TOKEN''
         ''{}'' [] (Inr response_ok),
       Ev_Decode response_ok None])"
  by (simp add: example_dispatch_def Do_def Do_response_def example_Corp_def
      example_HTTPClient_def example_Action_def Let_def)

lemma dispatch_bare_upload:
  "example_dispatch (example_Action True) (Inr response_bare) =
     (None, response_bare,
      [Ev_IsUpload True, Ev_UploadForm (Inr ()),
       Ev_URL ''ACCESS_TOKEN'' ''https://host/cgi-bin/agent/list?access_token=ACCESS_TOKEN'',
       Ev_HTTPClient_Upload () ''https://host/cgi-bin/agent/list?access_token=ACCESS_TOKEN''
         () [] (Inr response_bare),
       Ev_Decode response_bare None])"
  by (simp add: example_dispatch_def Do_def Do_response_def example_Corp_def
      example_HTTPClient_def example_Action_def Let_def)

lemma dispatch_broken:
  "example_dispatch (broken_Action False) (Inr response_ok) =
     (Some (Foreign 7), ''dest'', [Ev_IsUpload False, Ev_Body (Inl (Foreign 7))])"
  by (simp add: example_dispatch_def Do_def broken_Action_def example_Action_def)

lemma dispatch_broken_upload:
  "example_dispatch (broken_Action True) (Inr response_ok) =
     (Some (Foreign 7), ''dest'', [Ev_IsUpload True, Ev_UploadForm (Inl (Foreign 7))])"
  by (simp add: example_dispatch_def Do_def broken_Action_def example_Action_def)

lemma dispatch_offline:
  "example_dispatch (example_Action False) (Inl (Foreign 3)) =
     (Some (Foreign 3), ''dest'',
      [Ev_IsUpload False, Ev_Body (Inr ''{}''), Ev_Method ''POST'',
       Ev_URL ''ACCESS_TOKEN'' ''https://host/cgi-bin/agent/list?access_token=ACCESS_TOKEN'',
       Ev_HTTPClient_Do () ''POST'' ''https://host/cgi-bin/agent/list?access_token=ACCESS_TOKEN''
         ''{}'' [] (Inl (Foreign 3))])"
  by (simp add: example_dispatch_def Do_def Do_response_def example_Corp_def
      example_HTTPClient_def example_Action_def Let_def)

section \<open>The dispatcher's contract\<close>

text \<open>
  C1. When the response that the transport delivered has an \<open>errcode\<close> that exists and
  whose \<open>Int()\<close> is not zero, \<open>Do\<close> returns a non-nil error whose text is the code in
  decimal, a bar and the response's \<open>errmsg\<close>, and the dispatch makes no call of
  \<open>Decode\<close>.
\<close>

theorem Do_envelope_error:
  assumes run: "Do P (traced_Corp corp) ctx tok (traced_Action a) opts (s, []) = (r, s', log)"
    and resp: "Inr resp \<in> set (transport_results log)"
    and present: "Result_Exists (P resp ''errcode'')"
    and code: "Result_Int (P resp ''errcode'') \<noteq> 0"
  shows "r = Some (FmtError (fmt_d (sint (Result_Int (P resp ''errcode''))) @ ''|'' @
                     Result_String (P resp ''errmsg'')))
         \<and> filter is_Decode log = []
         \<and> Do P corp ctx tok a opts s = (r, s')"
  using run Do_plain [OF run]
  by (cases rule: Do_traced_cases) (use resp code in \<open>auto simp: Errorf_code_msg_def\<close>)

theorem Do_envelope_error_witness:
  "Inr response_rejected
     \<in> set (transport_results (snd (snd (example_dispatch (example_Action False) (Inr response_rejected)))))
   \<and> Result_Exists (example_ParseBytes response_rejected ''errcode'')
   \<and> Result_Int (example_ParseBytes response_rejected ''errcode'') \<noteq> 0
   \<and> fst (example_dispatch (example_Action False) (Inr response_rejected))
       = Some (FmtError ''40001|invalid credential'')
   \<and> filter is_Decode (snd (snd (example_dispatch (example_Action False) (Inr response_rejected)))) = []"
proof -
  have resp: "Inr response_rejected
     \<in> set (transport_results (snd (snd (example_dispatch (example_Action False) (Inr response_rejected)))))"
    by (simp add: dispatch_rejected)
  have present: "Result_Exists (example_ParseBytes response_rejected ''errcode'')"
    and code: "Result_Int (example_ParseBytes response_rejected ''errcode'') \<noteq> 0"
    by simp_all
  from Do_envelope_error [OF example_run resp present code] resp present code
  show ?thesis by (simp add: fmt_d_40001)
qed

text \<open>
  C2. When the transport delivered a response (so body or form production succeeded too)
  and its \<open>errcode\<close> is absent or has \<open>Int()\<close> zero, the dispatch calls \<open>Decode\<close> exactly
  once, on the whole response, and \<open>Do\<close> returns what that call returned. Absent and
  zero are not told apart.
\<close>

theorem Do_success_decodes_once:
  assumes run: "Do P (traced_Corp corp) ctx tok (traced_Action a) opts (s, []) = (r, s', log)"
    and resp: "Inr resp \<in> set (transport_results log)"
    and code: "\<not> Result_Exists (P resp ''errcode'') \<or> Result_Int (P resp ''errcode'') = 0"
  shows "filter is_Decode log = [Ev_Decode resp r] \<and> None \<in> set (encode_errors log)
         \<and> Do P corp ctx tok a opts s = (r, s')"
proof -
  have z: "Result_Int (P resp ''errcode'') = 0"
    using code by (cases "P resp ''errcode''") auto
  from run Do_plain [OF run] show ?thesis
    by (cases rule: Do_traced_cases) (use resp z in auto)
qed

theorem Do_success_decodes_once_witness:
  "(Inr response_bare
      \<in> set (transport_results (snd (snd (example_dispatch (example_Action True) (Inr response_bare)))))
    \<and> \<not> Result_Exists (example_ParseBytes response_bare ''errcode'')
    \<and> filter is_Decode (snd (snd (example_dispatch (example_Action True) (Inr response_bare))))
        = [Ev_Decode response_bare None]
    \<and> fst (example_dispatch (example_Action True) (Inr response_bare)) = None)
   \<and> (Inr response_ok
      \<in> set (transport_results (snd (snd (example_dispatch (example_Action False) (Inr response_ok)))))
    \<and> Result_Int (example_ParseBytes response_ok ''errcode'') = 0
    \<and> filter is_Decode (snd (snd (example_dispatch (example_Action False) (Inr response_ok))))
        = [Ev_Decode response_ok None]
    \<and> fst (example_dispatch (example_Action False) (Inr response_ok)) = None)"
proof -
  have r1: "Inr response_bare
      \<in> set (transport_results (snd (snd (example_dispatch (example_Action True) (Inr response_bare)))))"
    by (simp add: dispatch_bare_upload)
  have c1: "\<not> Result_Exists (example_ParseBytes response_bare ''errcode'')
            \<or> Result_Int (example_ParseBytes response_bare ''errcode'') = 0"
    by simp
  have r2: "Inr response_ok
      \<in> set (transport_results (snd (snd (example_dispatch (example_Action False) (Inr response_ok)))))"
    by (simp add: dispatch_ok)
  have c2: "\<not> Result_Exists (example_ParseBytes response_ok ''errcode'')
            \<or> Result_Int (example_ParseBytes response_ok ''errcode'') = 0"
    by simp
  from Do_success_decodes_once [OF example_run r1 c1]
       Do_success_decodes_once [OF example_run r2 c2] r1 r2
  show ?thesis by (simp add: dispatch_bare_upload dispatch_ok)
qed
text \<open>
  C4. Every dispatch asks \<open>IsUpload\<close> once and then calls exactly one of \<open>Body\<close> and
  \<open>UploadForm\<close>, once: \<open>UploadForm\<close> when \<open>IsUpload\<close> returned true, \<open>Body\<close> when it
  returned false.
\<close>

theorem Do_one_of_Body_UploadForm:
  assumes run: "Do P (traced_Corp corp) ctx tok (traced_Action a) opts (s, []) = (r, s', log)"
  shows "(IsUpload_results log = [True] \<and> length (filter is_UploadForm log) = 1
            \<and> filter is_Body log = [])
         \<or> (IsUpload_results log = [False] \<and> length (filter is_Body log) = 1
            \<and> filter is_UploadForm log = [])"
  using run by (cases rule: Do_traced_cases) auto

theorem Do_one_of_Body_UploadForm_witness:
  "(IsUpload_results (snd (snd (example_dispatch (example_Action True) (Inr response_bare)))) = [True]
    \<and> length (filter is_UploadForm (snd (snd (example_dispatch (example_Action True) (Inr response_bare))))) = 1
    \<and> filter is_Body (snd (snd (example_dispatch (example_Action True) (Inr response_bare)))) = [])
   \<and> (IsUpload_results (snd (snd (example_dispatch (broken_Action False) (Inr response_ok)))) = [False]
    \<and> length (filter is_Body (snd (snd (example_dispatch (broken_Action False) (Inr response_ok))))) = 1
    \<and> filter is_UploadForm (snd (snd (example_dispatch (broken_Action False) (Inr response_ok)))) = [])"
  using Do_one_of_Body_UploadForm [OF example_run, of "example_Action True" "Inr response_bare"]
    Do_one_of_Body_UploadForm [OF example_run, of "broken_Action False" "Inr response_ok"]
  by (simp add: dispatch_bare_upload dispatch_broken)

text \<open>
  C5. When the \<open>Body\<close> or \<open>UploadForm\<close> call of a dispatch returns a non-nil error, \<open>Do\<close>
  returns that error and the dispatch ends there: its log is the \<open>IsUpload\<close> call and the
  failed call, so the transport and \<open>Decode\<close> are not called; and the outcome is the same
  whatever the envelope reader is, so no response is parsed.
\<close>

theorem Do_encoding_error:
  assumes run: "Do P (traced_Corp corp) ctx tok (traced_Action a) opts (s, []) = (r, s', log)"
    and enc: "Some e \<in> set (encode_errors log)"
  shows "r = Some e
         \<and> (log = [Ev_IsUpload False, Ev_Body (Inl e)] \<or> log = [Ev_IsUpload True, Ev_UploadForm (Inl e)])
         \<and> filter is_transport log = [] \<and> filter is_Decode log = []
         \<and> (\<forall>P'. Do P' (traced_Corp corp) ctx tok (traced_Action a) opts (s, []) = (r, s', log))
         \<and> Do P corp ctx tok a opts s = (r, s')"
  using run Do_plain [OF run]
  by (cases rule: Do_traced_cases) (use enc in \<open>auto simp: Do_def\<close>)

theorem Do_encoding_error_witness:
  "Some (Foreign 7) \<in> set (encode_errors (snd (snd (example_dispatch (broken_Action True) (Inr response_ok)))))
   \<and> fst (example_dispatch (broken_Action True) (Inr response_ok)) = Some (Foreign 7)
   \<and> snd (snd (example_dispatch (broken_Action True) (Inr response_ok)))
       = [Ev_IsUpload True, Ev_UploadForm (Inl (Foreign 7))]
   \<and> Do (\<lambda>resp path. Found 1 ''x'') (traced_Corp (example_Corp (Inr response_ok))) () ''ACCESS_TOKEN''
        (traced_Action (broken_Action True)) [] (''dest'', [])
       = example_dispatch (broken_Action True) (Inr response_ok)"
proof -
  have enc: "Some (Foreign 7)
      \<in> set (encode_errors (snd (snd (example_dispatch (broken_Action True) (Inr response_ok)))))"
    by (simp add: dispatch_broken_upload)
  from Do_encoding_error [OF example_run enc] enc
  show ?thesis by (simp add: dispatch_broken_upload)
qed

text \<open>
  C6. When the transport call of a dispatch (\<open>client.Do\<close> or \<open>client.Upload\<close>) returns a
  non-nil error, \<open>Do\<close> returns that very value, \<open>Decode\<close> is not called, and the outcome
  is the same whatever the envelope reader is, so no response is parsed.
\<close>

theorem Do_transport_error:
  assumes run: "Do P (traced_Corp corp) ctx tok (traced_Action a) opts (s, []) = (r, s', log)"
    and err: "Inl e \<in> set (transport_results log)"
  shows "r = Some e \<and> filter is_Decode log = []
         \<and> (\<forall>P'. Do P' (traced_Corp corp) ctx tok (traced_Action a) opts (s, []) = (r, s', log))
         \<and> Do P corp ctx tok a opts s = (r, s')"
  using run Do_plain [OF run]
  by (cases rule: Do_traced_cases) (use err in \<open>auto simp: Do_def Do_response_def\<close>)

theorem Do_transport_error_witness:
  "Inl (Foreign 3)
     \<in> set (transport_results (snd (snd (example_dispatch (example_Action False) (Inl (Foreign 3))))))
   \<and> fst (example_dispatch (example_Action False) (Inl (Foreign 3))) = Some (Foreign 3)
   \<and> filter is_Decode (snd (snd (example_dispatch (example_Action False) (Inl (Foreign 3))))) = []
   \<and> Do (\<lambda>resp path. Found 1 ''x'') (traced_Corp (example_Corp (Inl (Foreign 3)))) () ''ACCESS_TOKEN''
        (traced_Action (example_Action False)) [] (''dest'', [])
       = example_dispatch (example_Action False) (Inl (Foreign 3))"
proof -
  have err: "Inl (Foreign 3)
     \<in> set (transport_results (snd (snd (example_dispatch (example_Action False) (Inl (Foreign 3))))))"
    by (simp add: dispatch_offline)
  from Do_transport_error [OF example_run err] err
  show ?thesis by (simp add: dispatch_offline)
qed

lemma preserves_eq: "preserves dest m \<Longrightarrow> m t = (x, t') \<Longrightarrow> dest t' = dest t"
  by (auto simp: preserves_def dest: spec [of _ t])

lemma Do_traced_frame:
  assumes run: "Do P (traced_Corp corp) ctx tok (traced_Action a) opts (s, []) = (r, s', log)"
    and quiet: "filter is_Decode log = []"
    and frame: "only_Decode_writes dest a (client corp)"
  shows "dest s' = dest s"
proof -
  from frame have
    iu: "preserves dest (IsUpload a)" and bo: "preserves dest (Body a)" and
    uf: "preserves dest (UploadForm a)" and me: "preserves dest (Method a)" and
    ur: "preserves dest (URL a tok)" and
    cd: "\<And>m url body. preserves dest (HTTPClient_Do (client corp) ctx m url body opts)" and
    cu: "\<And>url form. preserves dest (HTTPClient_Upload (client corp) ctx url form opts)"
    by (simp_all add: only_Decode_writes_def)
  from run show ?thesis
  proof (cases rule: Do_traced_cases)
    case (form_error e s1)
    with preserves_eq [OF iu form_error(1)] preserves_eq [OF uf form_error(2)]
    show ?thesis by simp
  next
    case (body_error e s1)
    with preserves_eq [OF iu body_error(1)] preserves_eq [OF bo body_error(2)]
    show ?thesis by simp
  next
    case (upload_error e s1 s2 s3 form url)
    with preserves_eq [OF iu upload_error(1)] preserves_eq [OF uf upload_error(2)]
      preserves_eq [OF ur upload_error(3)] preserves_eq [OF cu upload_error(4)]
    show ?thesis by simp
  next
    case (do_error e s1 s2 s3 s4 body m url)
    with preserves_eq [OF iu do_error(1)] preserves_eq [OF bo do_error(2)]
      preserves_eq [OF me do_error(3)] preserves_eq [OF ur do_error(4)]
      preserves_eq [OF cd do_error(5)]
    show ?thesis by simp
  next
    case (upload_envelope resp s1 s2 s3 form url)
    with preserves_eq [OF iu upload_envelope(1)] preserves_eq [OF uf upload_envelope(2)]
      preserves_eq [OF ur upload_envelope(3)] preserves_eq [OF cu upload_envelope(4)]
    show ?thesis by simp
  next
    case (do_envelope resp s1 s2 s3 s4 body m url)
    with preserves_eq [OF iu do_envelope(1)] preserves_eq [OF bo do_envelope(2)]
      preserves_eq [OF me do_envelope(3)] preserves_eq [OF ur do_envelope(4)]
      preserves_eq [OF cd do_envelope(5)]
    show ?thesis by simp
  next
    case (upload_decode resp s1 s2 s3 s4 form url)
    with quiet show ?thesis by simp
  next
    case (do_decode resp s1 s2 s3 s4 s5 body m url)
    with quiet show ?thesis by simp
  qed
qed

lemma Do_traced_outcome:
  assumes run: "Do P (traced_Corp corp) ctx tok (traced_Action a) opts (s, []) = (r, s', log)"
  shows "exactly_one [is_encoding_error log r, is_transport_error log r,
                      is_envelope_error P log r, is_decode_error log r, r = None]"
  using run
  by (cases rule: Do_traced_cases)
    (auto simp: exactly_one_def is_encoding_error_def is_transport_error_def
      is_envelope_error_def is_decode_error_def)

lemma Do_traced_quiet:
  assumes run: "Do P (traced_Corp corp) ctx tok (traced_Action a) opts (s, []) = (r, s', log)"
    and err: "r \<noteq> None" and nd: "\<not> is_decode_error log r"
  shows "filter is_Decode log = []"
  using run
  by (cases rule: Do_traced_cases) (use err nd in \<open>auto simp: is_decode_error_def\<close>)

text \<open>
  C3, as the code has it. What a dispatch returns is exactly one of five things: an
  encoding error (from \<open>Body\<close> or \<open>UploadForm\<close>), a transport error, an envelope error,
  a decode error, or nil. When it is a non-nil error other than a decode error, \<open>Decode\<close>
  was not called; and if \<open>Decode\<close> is the only step that writes to the destination, the
  destination is what it was before the dispatch.
\<close>

theorem Do_outcomes:
  assumes run: "Do P (traced_Corp corp) ctx tok (traced_Action a) opts (s, []) = (r, s', log)"
  shows "exactly_one [is_encoding_error log r, is_transport_error log r,
                      is_envelope_error P log r, is_decode_error log r, r = None]
         \<and> (r \<noteq> None \<and> \<not> is_decode_error log r \<longrightarrow>
              filter is_Decode log = []
              \<and> (only_Decode_writes dest a (client corp) \<longrightarrow> dest s' = dest s))
         \<and> Do P corp ctx tok a opts s = (r, s')"
  using Do_traced_outcome [OF run] Do_traced_quiet [OF run] Do_traced_frame [OF run]
    Do_plain [OF run]
  by blast

lemma example_only_Decode_writes:
  "only_Decode_writes (\<lambda>s. s) (example_Action up) (client (example_Corp res))"
  by (simp add: only_Decode_writes_def preserves_def example_Action_def example_Corp_def
      example_HTTPClient_def)

theorem Do_outcomes_witness:
  "fst (example_dispatch (example_Action False) (Inr response_rejected)) \<noteq> None
   \<and> \<not> is_decode_error (snd (snd (example_dispatch (example_Action False) (Inr response_rejected))))
         (fst (example_dispatch (example_Action False) (Inr response_rejected)))
   \<and> only_Decode_writes (\<lambda>s. s) (example_Action False) (client (example_Corp (Inr response_rejected)))
   \<and> is_envelope_error example_ParseBytes
        (snd (snd (example_dispatch (example_Action False) (Inr response_rejected))))
        (fst (example_dispatch (example_Action False) (Inr response_rejected)))
   \<and> filter is_Decode (snd (snd (example_dispatch (example_Action False) (Inr response_rejected)))) = []
   \<and> fst (snd (example_dispatch (example_Action False) (Inr response_rejected))) = ''dest''"
proof -
  have err: "fst (example_dispatch (example_Action False) (Inr response_rejected)) \<noteq> None"
    and nd: "\<not> is_decode_error (snd (snd (example_dispatch (example_Action False) (Inr response_rejected))))
         (fst (example_dispatch (example_Action False) (Inr response_rejected)))"
    and env: "is_envelope_error example_ParseBytes
        (snd (snd (example_dispatch (example_Action False) (Inr response_rejected))))
        (fst (example_dispatch (example_Action False) (Inr response_rejected)))"
    by (simp_all add: dispatch_rejected is_decode_error_def is_envelope_error_def
        Errorf_code_msg_def fmt_d_40001)
  from Do_outcomes [OF example_run, of "example_Action False" "Inr response_rejected" "\<lambda>s. s"]
    err nd env example_only_Decode_writes [of False "Inr response_rejected"]
  show ?thesis by simp
qed

text \<open>
  C3, as the specification words it, names four outcomes only. The dispatch of an Action whose
  \<open>Body\<close> fails returns the error of \<open>Body\<close>: no transport call and no \<open>Decode\<close> call
  returned it, it is not an envelope error, and it is not nil.
\<close>

theorem Do_four_outcomes_counterexample:
  "\<not> exactly_one
       [is_transport_error (snd (snd (example_dispatch (broken_Action False) (Inr response_ok))))
          (fst (example_dispatch (broken_Action False) (Inr response_ok))),
        is_envelope_error example_ParseBytes
          (snd (snd (example_dispatch (broken_Action False) (Inr response_ok))))
          (fst (example_dispatch (broken_Action False) (Inr response_ok))),
        is_decode_error (snd (snd (example_dispatch (broken_Action False) (Inr response_ok))))
          (fst (example_dispatch (broken_Action False) (Inr response_ok))),
        fst (example_dispatch (broken_Action False) (Inr response_ok)) = None]
   \<and> fst (example_dispatch (broken_Action False) (Inr response_ok)) = Some (Foreign 7)
   \<and> snd (snd (example_dispatch (broken_Action False) (Inr response_ok)))
       = [Ev_IsUpload False, Ev_Body (Inl (Foreign 7))]"
  by (simp add: dispatch_broken exactly_one_def is_transport_error_def is_envelope_error_def
      is_decode_error_def)

section \<open>\<open>Corp.AccessToken\<close> and \<open>New\<close>\<close>

text \<open>
  C9. \<open>AccessToken\<close> never returns a token together with an error. With \<open>res\<close> what the
  transport returned: either the transport failed and its error comes back with a nil
  token; or the response's \<open>errcode\<close> is not zero and the \<open>code|message\<close> error comes back
  with a nil token, whatever \<open>json.Unmarshal\<close> would do (it is not consulted); or
  \<open>json.Unmarshal\<close> failed and its error comes back with a nil token; or the token comes
  back with a nil error.
\<close>

theorem AccessToken_outcomes:
  assumes call: "HTTPClient_Do (client corp) ctx ''GET''
                   (base @ ''?corpid='' @ corpid corp @ ''&corpsecret='' @ secret) [] opts s
                 = (res, s1)"
    and ret: "AccessToken P U z base corp ctx secret opts s = ((tok, err), s')"
  shows "\<not> (tok \<noteq> None \<and> err \<noteq> None)
     \<and> ((\<exists>e. res = Inl e \<and> tok = None \<and> err = Some e)
        \<or> (\<exists>resp. res = Inr resp \<and> Result_Int (P resp ''errcode'') \<noteq> 0 \<and> tok = None
              \<and> err = Some (FmtError (fmt_d (sint (Result_Int (P resp ''errcode''))) @ ''|'' @
                                      Result_String (P resp ''errmsg'')))
              \<and> (\<forall>U' z'. AccessToken P U' z' base corp ctx secret opts s = ((tok, err), s')))
        \<or> (\<exists>resp e t. res = Inr resp \<and> Result_Int (P resp ''errcode'') = 0
              \<and> U resp z = (Some e, t) \<and> tok = None \<and> err = Some e)
        \<or> (\<exists>resp t. res = Inr resp \<and> Result_Int (P resp ''errcode'') = 0
              \<and> U resp z = (None, t) \<and> tok = Some t \<and> err = None))"
proof (cases res)
  case (Inl e)
  with call ret show ?thesis
    by (simp add: AccessToken_def)
next
  case (Inr resp)
  show ?thesis
  proof (cases "Result_Int (P resp ''errcode'') = 0")
    case False
    with call ret Inr show ?thesis
      by (auto simp: AccessToken_def Let_def Errorf_code_msg_def)
  next
    case True
    obtain ue t where u: "U resp z = (ue, t)"
      by (cases "U resp z")
    with call ret Inr True show ?thesis
      by (cases ue) (auto simp: AccessToken_def Let_def)
  qed
qed

theorem AccessToken_outcomes_witness:
  "AccessToken example_ParseBytes example_Unmarshal [] ''https://host/cgi-bin/gettoken''
      (example_Corp (Inr response_rejected)) () ''SECRET'' [] ''world''
     = ((None, Some (FmtError ''40001|invalid credential'')), ''world'')
   \<and> AccessToken example_ParseBytes example_Unmarshal [] ''https://host/cgi-bin/gettoken''
      (example_Corp (Inr response_token)) () ''SECRET'' [] ''world''
     = ((Some ''TOKEN'', None), ''world'')
   \<and> AccessToken example_ParseBytes example_Unmarshal [] ''https://host/cgi-bin/gettoken''
      (example_Corp (Inr response_bare)) () ''SECRET'' [] ''world''
     = ((None, Some (Foreign 9)), ''world'')
   \<and> AccessToken example_ParseBytes example_Unmarshal [] ''https://host/cgi-bin/gettoken''
      (example_Corp (Inl (Foreign 3))) () ''SECRET'' [] ''world''
     = ((None, Some (Foreign 3)), ''world'')"
proof -
  have call: "HTTPClient_Do (client (example_Corp res)) () ''GET''
       (''https://host/cgi-bin/gettoken'' @ ''?corpid='' @ corpid (example_Corp res) @
        ''&corpsecret='' @ ''SECRET'') [] [] ''world'' = (res, ''world'')" for res
    by (simp add: example_Corp_def example_HTTPClient_def)
  have ret: "AccessToken example_ParseBytes example_Unmarshal [] ''https://host/cgi-bin/gettoken''
      (example_Corp res) () ''SECRET'' [] ''world''
     = ((fst (fst (AccessToken example_ParseBytes example_Unmarshal [] ''https://host/cgi-bin/gettoken''
                    (example_Corp res) () ''SECRET'' [] ''world'')),
         snd (fst (AccessToken example_ParseBytes example_Unmarshal [] ''https://host/cgi-bin/gettoken''
                    (example_Corp res) () ''SECRET'' [] ''world''))),
        snd (AccessToken example_ParseBytes example_Unmarshal [] ''https://host/cgi-bin/gettoken''
                    (example_Corp res) () ''SECRET'' [] ''world''))" for res
    by simp
  have ev: "example_ParseBytes response_token ''errcode'' = Missing"
    "example_Unmarshal response_token [] = (None, ''TOKEN'')"
    "example_Unmarshal response_bare [] = (Some (Foreign 9), [])"
    by (simp_all add: example_ParseBytes_def example_Unmarshal_def response_token_def
        response_rejected_def response_ok_def response_bare_def)
  note w = AccessToken_outcomes [OF call ret]
  have a: "AccessToken example_ParseBytes example_Unmarshal [] ''https://host/cgi-bin/gettoken''
      (example_Corp (Inr response_rejected)) () ''SECRET'' [] ''world''
     = ((None, Some (FmtError ''40001|invalid credential'')), ''world'')"
    using w [of "Inr response_rejected"]
    by (simp add: AccessToken_def example_Corp_def example_HTTPClient_def Let_def
        Errorf_code_msg_def fmt_d_40001)
  have b: "AccessToken example_ParseBytes example_Unmarshal [] ''https://host/cgi-bin/gettoken''
      (example_Corp (Inr response_token)) () ''SECRET'' [] ''world''
     = ((Some ''TOKEN'', None), ''world'')"
    by (simp add: AccessToken_def example_Corp_def example_HTTPClient_def Let_def ev)
  have c: "AccessToken example_ParseBytes example_Unmarshal [] ''https://host/cgi-bin/gettoken''
      (example_Corp (Inr response_bare)) () ''SECRET'' [] ''world''
     = ((None, Some (Foreign 9)), ''world'')"
    by (simp add: AccessToken_def example_Corp_def example_HTTPClient_def Let_def ev)
  have d: "AccessToken example_ParseBytes example_Unmarshal [] ''https://host/cgi-bin/gettoken''
      (example_Corp (Inl (Foreign 3))) () ''SECRET'' [] ''world''
     = ((None, Some (Foreign 3)), ''world'')"
    by (simp add: AccessToken_def example_Corp_def example_HTTPClient_def)
  from a b c d show ?thesis by simp
qed

text \<open>
  C10. \<open>New\<close> builds the Corp with the given corpid, the default client and the generator
  \<open>wx.Nonce\<close> at size 16, then applies the options from left to right (an option added
  at the end is applied last, to the Corp the earlier ones built, so of two options that
  set the same field the later one wins). After
  \<open>New corpid [WithMockClient c]\<close> the transport is \<open>c\<close> and nothing of the default
  client remains, so \<open>Do\<close> and \<open>AccessToken\<close> run against \<open>c\<close>.
\<close>

theorem New_applies_options_in_order:
  "New d N cid [] = \<lparr> corpid = cid, token = [], aeskey = [], nonce = N 16, client = d \<rparr>
   \<and> New d N cid opts = foldl (\<lambda>corp f. f corp) (New d N cid []) opts
   \<and> New d N cid (opts @ [f]) = f (New d N cid opts)
   \<and> New d N cid [WithMockClient c]
       = \<lparr> corpid = cid, token = [], aeskey = [], nonce = N 16, client = c \<rparr>
   \<and> client (New d N cid [WithMockClient c]) = c
   \<and> client (New d N cid [WithMockClient c', WithMockClient c]) = c
   \<and> client (New d N cid [WithMockClient c, WithClient H h]) = H h
   \<and> token (New d N cid [WithServerConfig t k, WithServerConfig t' k']) = t'
   \<and> nonce (New d N cid [WithNonce g]) = g
   \<and> Do P (New d N cid [WithMockClient c]) ctx tok a os s
       = Do P \<lparr> corpid = cid, token = [], aeskey = [], nonce = N 16, client = c \<rparr> ctx tok a os s
   \<and> AccessToken P U z base (New d N cid [WithMockClient c]) ctx secret os s
       = AccessToken P U z base \<lparr> corpid = cid, token = [], aeskey = [], nonce = N 16, client = c \<rparr>
           ctx secret os s"
proof -
  have fold: "apply_options corp fs = foldl (\<lambda>corp f. f corp) corp fs" for fs
    and corp :: "('a, 'b, 'c, 'd, 'e) Corp"
    by (induction fs arbitrary: corp) simp_all
  have mock: "New d N cid [WithMockClient c]
       = \<lparr> corpid = cid, token = [], aeskey = [], nonce = N 16, client = c \<rparr>"
    by (simp add: New_def WithMockClient_def)
  show ?thesis
    unfolding mock
    by (simp add: New_def fold WithMockClient_def WithClient_def WithServerConfig_def
        WithNonce_def)
qed

section \<open>The menu tree through the wire\<close>

lemma decode_MenuButton_members_append:
  "decode_MenuButton_members (xs @ ys) b =
     (case decode_MenuButton_members xs b of None \<Rightarrow> None
      | Some b' \<Rightarrow> decode_MenuButton_members ys b')"
proof (induction xs arbitrary: b)
  case Nil
  show ?case by simp
next
  case (Cons x xs)
  obtain k v where x: "x = (k, v)" by (cases x)
  show ?case
    by (simp add: x Cons.IH split: option.split)
qed

lemma decode_omitempty:
  "decode_MenuButton_members (omitempty ''type'' x) (MenuButton [] n k u a p m s)
     = Some (MenuButton x n k u a p m s)"
  "decode_MenuButton_members (omitempty ''name'' x) (MenuButton ty [] k u a p m s)
     = Some (MenuButton ty x k u a p m s)"
  "decode_MenuButton_members (omitempty ''key'' x) (MenuButton ty n [] u a p m s)
     = Some (MenuButton ty n x u a p m s)"
  "decode_MenuButton_members (omitempty ''url'' x) (MenuButton ty n k [] a p m s)
     = Some (MenuButton ty n k x a p m s)"
  "decode_MenuButton_members (omitempty ''appid'' x) (MenuButton ty n k u [] p m s)
     = Some (MenuButton ty n k u x p m s)"
  "decode_MenuButton_members (omitempty ''pagepath'' x) (MenuButton ty n k u a [] m s)
     = Some (MenuButton ty n k u a x m s)"
  "decode_MenuButton_members (omitempty ''media_id'' x) (MenuButton ty n k u a p [] s)
     = Some (MenuButton ty n k u a p x s)"
  by (simp_all add: omitempty_def)

lemma decode_sub_button:
  "decode_MenuButton_members [(''sub_button'', JArray js)] (MenuButton ty n k u a p m s)
     = (case decode_MenuButtons js of None \<Rightarrow> None
        | Some bs \<Rightarrow> Some (MenuButton ty n k u a p m (Some bs)))"
  by (simp split: option.split)

lemma decode_encoded_fields:
  assumes "decode_MenuButtons js = Some bs"
  shows "decode_MenuButton_members
           (omitempty ''type'' ty @ omitempty ''name'' n @ omitempty ''key'' k @
            omitempty ''url'' u @ omitempty ''appid'' a @ omitempty ''pagepath'' p @
            omitempty ''media_id'' m @ [(''sub_button'', JArray js)])
           MenuButton_zero
         = Some (MenuButton ty n k u a p m (Some bs))"
  by (simp only: MenuButton_zero_def decode_MenuButton_members_append decode_omitempty
      decode_sub_button option.case assms)

lemma decode_MenuButtons_map:
  assumes "\<And>b. b \<in> set bs \<Longrightarrow>
             decode_MenuButton (encode_MenuButton b) MenuButton_zero = Some (roundtrip_MenuButton b)"
  shows "decode_MenuButtons (map encode_MenuButton bs) = Some (map roundtrip_MenuButton bs)"
  using assms by (induction bs) simp_all

lemma decode_encode_MenuButton:
  "decode_MenuButton (encode_MenuButton b) MenuButton_zero = Some (roundtrip_MenuButton b)"
proof (induction b)
  case (MenuButton ty n k u a p m sub)
  show ?case
  proof (cases sub)
    case None
    have "decode_MenuButtons [] = Some []" by simp
    from decode_encoded_fields [OF this] None show ?thesis by simp
  next
    case (Some bs)
    have "decode_MenuButtons (map encode_MenuButton bs) = Some (map roundtrip_MenuButton bs)"
      by (rule decode_MenuButtons_map) (simp add: MenuButton.IH Some)
    from decode_encoded_fields [OF this] Some show ?thesis by simp
  qed
qed

lemma roundtrip_never_nil: "SubButton_never_nil (roundtrip_MenuButton b)"
proof (induction b)
  case (MenuButton ty n k u a p m sub)
  show ?case
    by (cases sub) (simp_all add: list_all_iff MenuButton.IH)
qed

lemma member_sub_button:
  "member ''sub_button'' (encode_MenuButton b)
     = Some (JArray (map encode_MenuButton (slice_items (MenuButton_SubButton b))))"
  by (cases b; cases "MenuButton_SubButton b") simp_all

text \<open>
  C7. A button tree, serialized by the body producer of the Create action and read back
  by the decoder of the Get action, comes back with the same \<open>Type\<close>, \<open>Name\<close>, \<open>Key\<close>,
  \<open>URL\<close>, \<open>AppID\<close>, \<open>PagePath\<close> and \<open>MediaID\<close> at every node and with the sub-buttons
  read back the same way. On the wire every node has a \<open>sub_button\<close> member that is an
  array, and in memory every node's \<open>SubButton\<close> is a sequence: the empty one when the
  node has no children. The body of Create, returned under \<open>menu\<close>, decodes to these
  buttons.
\<close>

theorem MenuButton_roundtrip:
  "decode_MenuButton (encode_MenuButton b) MenuButton_zero = Some (roundtrip_MenuButton b)
   \<and> MenuButton_Type (roundtrip_MenuButton b) = MenuButton_Type b
   \<and> MenuButton_Name (roundtrip_MenuButton b) = MenuButton_Name b
   \<and> MenuButton_Key (roundtrip_MenuButton b) = MenuButton_Key b
   \<and> MenuButton_URL (roundtrip_MenuButton b) = MenuButton_URL b
   \<and> MenuButton_AppID (roundtrip_MenuButton b) = MenuButton_AppID b
   \<and> MenuButton_PagePath (roundtrip_MenuButton b) = MenuButton_PagePath b
   \<and> MenuButton_MediaID (roundtrip_MenuButton b) = MenuButton_MediaID b
   \<and> MenuButton_SubButton (roundtrip_MenuButton b)
       = Some (map roundtrip_MenuButton (slice_items (MenuButton_SubButton b)))
   \<and> SubButton_never_nil (roundtrip_MenuButton b)
   \<and> member ''sub_button'' (encode_MenuButton b)
       = Some (JArray (map encode_MenuButton (slice_items (MenuButton_SubButton b))))
   \<and> (slice_items (MenuButton_SubButton b) = [] \<longrightarrow>
        member ''sub_button'' (encode_MenuButton b) = Some (JArray [])
        \<and> MenuButton_SubButton (roundtrip_MenuButton b) = Some [])
   \<and> GetMenu_Decode (JObject [(''menu'', CreateMenu_Body bs)]) MenuInfo_zero
       = Some \<lparr> MenuInfo_DefaultMenu = Some
                  \<lparr> DefaultMenu_Button = Some (map roundtrip_MenuButton bs),
                    DefaultMenu_MenuID = 0 \<rparr>,
                MenuInfo_ConditionalMenu = None \<rparr>"
proof -
  have list: "decode_MenuButtons (map encode_MenuButton bs) = Some (map roundtrip_MenuButton bs)"
    by (rule decode_MenuButtons_map) (rule decode_encode_MenuButton)
  have get: "GetMenu_Decode (JObject [(''menu'', CreateMenu_Body bs)]) MenuInfo_zero
       = Some \<lparr> MenuInfo_DefaultMenu = Some
                  \<lparr> DefaultMenu_Button = Some (map roundtrip_MenuButton bs),
                    DefaultMenu_MenuID = 0 \<rparr>,
                MenuInfo_ConditionalMenu = None \<rparr>"
    by (simp add: CreateMenu_Body_def list MenuInfo_zero_def DefaultMenu_zero_def)
  have fields: "MenuButton_Type (roundtrip_MenuButton b) = MenuButton_Type b
   \<and> MenuButton_Name (roundtrip_MenuButton b) = MenuButton_Name b
   \<and> MenuButton_Key (roundtrip_MenuButton b) = MenuButton_Key b
   \<and> MenuButton_URL (roundtrip_MenuButton b) = MenuButton_URL b
   \<and> MenuButton_AppID (roundtrip_MenuButton b) = MenuButton_AppID b
   \<and> MenuButton_PagePath (roundtrip_MenuButton b) = MenuButton_PagePath b
   \<and> MenuButton_MediaID (roundtrip_MenuButton b) = MenuButton_MediaID b
   \<and> MenuButton_SubButton (roundtrip_MenuButton b)
       = Some (map roundtrip_MenuButton (slice_items (MenuButton_SubButton b)))"
    by (cases b; cases "MenuButton_SubButton b") simp_all
  from fields get show ?thesis
    by (simp add: decode_encode_MenuButton roundtrip_never_nil member_sub_button)
qed

theorem MenuButton_roundtrip_witness:
  "slice_items (MenuButton_SubButton (ClickButton name_today_music ''V1001_TODAY_MUSIC'')) = []
   \<and> member ''sub_button'' (encode_MenuButton (ClickButton name_today_music ''V1001_TODAY_MUSIC''))
       = Some (JArray [])
   \<and> decode_MenuButton (encode_MenuButton (ClickButton name_today_music ''V1001_TODAY_MUSIC''))
        MenuButton_zero
       = Some (MenuButton ''click'' name_today_music ''V1001_TODAY_MUSIC'' [] [] [] [] (Some []))
   \<and> GetMenu_Decode (JObject [(''menu'', CreateMenu_Body TestCreateMenu_buttons)]) MenuInfo_zero
       = Some \<lparr> MenuInfo_DefaultMenu = Some
                  \<lparr> DefaultMenu_Button = Some
                      [MenuButton ''click'' name_today_music ''V1001_TODAY_MUSIC'' [] [] [] [] (Some []),
                       MenuButton [] name_menu [] [] [] [] []
                         (Some [MenuButton ''view'' name_search [] ''http://www.soso.com/'' [] [] []
                                  (Some []),
                                MenuButton ''miniprogram'' ''wxa'' [] ''http://mp.weixin.qq.com''
                                  ''wx286b93c14bbf93aa'' ''pages/lunar/index'' [] (Some []),
                                MenuButton ''click'' name_like_us ''V1001_GOOD'' [] [] [] []
                                  (Some [])])],
                    DefaultMenu_MenuID = 0 \<rparr>,
                MenuInfo_ConditionalMenu = None \<rparr>"
  using MenuButton_roundtrip [of "ClickButton name_today_music ''V1001_TODAY_MUSIC''"
      TestCreateMenu_buttons]
  by (simp add: ClickButton_def ViewButton_def MPButton_def GroupButton_def
      TestCreateMenu_buttons_def)

lemma decode_MenuMatchRule_member_keeps_Language:
  "k \<noteq> ''language'' \<Longrightarrow> decode_MenuMatchRule_member k v r = Some r' \<Longrightarrow> Language r' = Language r"
  by (auto simp: decode_MenuMatchRule_member.simps split: if_splits option.splits)

lemma decode_MenuMatchRule_members_keep_Language:
  "''language'' \<notin> fst ` set kvs \<Longrightarrow> decode_MenuMatchRule_members kvs r = Some r' \<Longrightarrow>
     Language r' = Language r"
proof (induction kvs arbitrary: r)
  case Nil
  then show ?case by simp
next
  case (Cons x kvs)
  obtain k v where x: "x = (k, v)" by (cases x)
  from Cons.prems x obtain r1 where
    step: "decode_MenuMatchRule_member k v r = Some r1" and
    rest: "decode_MenuMatchRule_members kvs r1 = Some r'"
    by (auto split: option.splits)
  from Cons.prems(1) x have k: "k \<noteq> ''language''" and ks: "''language'' \<notin> fst ` set kvs"
    by auto
  from Cons.IH [OF ks rest] decode_MenuMatchRule_member_keeps_Language [OF k step]
  show ?case by simp
qed

lemma decode_MenuButton_member_keeps:
  assumes "decode_MenuButton_member k v b = Some b'"
  shows "(k \<noteq> ''type'' \<longrightarrow> MenuButton_Type b' = MenuButton_Type b)
       \<and> (k \<noteq> ''key'' \<longrightarrow> MenuButton_Key b' = MenuButton_Key b)
       \<and> (k \<noteq> ''url'' \<longrightarrow> MenuButton_URL b' = MenuButton_URL b)
       \<and> (k \<noteq> ''appid'' \<longrightarrow> MenuButton_AppID b' = MenuButton_AppID b)
       \<and> (k \<noteq> ''pagepath'' \<longrightarrow> MenuButton_PagePath b' = MenuButton_PagePath b)
       \<and> (k \<noteq> ''media_id'' \<longrightarrow> MenuButton_MediaID b' = MenuButton_MediaID b)"
  using assms by (cases b) (auto split: if_splits option.splits json.splits)

lemma decode_MenuButton_members_keep:
  assumes "decode_MenuButton_members kvs b = Some b'"
  shows "(''type'' \<notin> fst ` set kvs \<longrightarrow> MenuButton_Type b' = MenuButton_Type b)
       \<and> (''key'' \<notin> fst ` set kvs \<longrightarrow> MenuButton_Key b' = MenuButton_Key b)
       \<and> (''url'' \<notin> fst ` set kvs \<longrightarrow> MenuButton_URL b' = MenuButton_URL b)
       \<and> (''appid'' \<notin> fst ` set kvs \<longrightarrow> MenuButton_AppID b' = MenuButton_AppID b)
       \<and> (''pagepath'' \<notin> fst ` set kvs \<longrightarrow> MenuButton_PagePath b' = MenuButton_PagePath b)
       \<and> (''media_id'' \<notin> fst ` set kvs \<longrightarrow> MenuButton_MediaID b' = MenuButton_MediaID b)"
  using assms
proof (induction kvs arbitrary: b)
  case Nil
  then show ?case by simp
next
  case (Cons x kvs)
  obtain k v where x: "x = (k, v)" by (cases x)
  from Cons.prems x obtain b1 where
    step: "decode_MenuButton_member k v b = Some b1" and
    rest: "decode_MenuButton_members kvs b1 = Some b'"
    by (auto split: option.splits)
  from Cons.IH [OF rest] decode_MenuButton_member_keeps [OF step] x
  show ?case by auto
qed

text \<open>
  C8. Decoding a match rule without a \<open>language\<close> key gives \<open>Language\<close> the empty string,
  and the six keys of the scenario (\<open>tag_id\<close>, \<open>sex\<close>, \<open>country\<close>, \<open>province\<close>, \<open>city\<close>,
  \<open>client_platform_type\<close>) fill their fields with the values given. Decoding a button
  that has none of the keys \<open>type\<close>, \<open>key\<close>, \<open>url\<close>, \<open>appid\<close>, \<open>pagepath\<close>, \<open>media_id\<close>
  (a pure group: a name and its sub-buttons) gives those six fields the empty string;
  the fields are there, with their zero value.
\<close>

theorem decode_absent_keys_zero:
  "(''language'' \<notin> fst ` set kvs \<and> decode_MenuMatchRule (JObject kvs) None = Some (Some r)
      \<longrightarrow> Language r = [])
   \<and> decode_MenuMatchRule
        (JObject [(''tag_id'', JString t), (''sex'', JString sx), (''country'', JString c),
                  (''province'', JString p), (''city'', JString ci),
                  (''client_platform_type'', JString cp)]) None
       = Some (Some \<lparr> TagID = t, Sex = sx, Country = c, Province = p, City = ci,
                      ClientPlatformType = cp, Language = [] \<rparr>)
   \<and> (''type'' \<notin> fst ` set bkvs \<and> ''key'' \<notin> fst ` set bkvs \<and> ''url'' \<notin> fst ` set bkvs
      \<and> ''appid'' \<notin> fst ` set bkvs \<and> ''pagepath'' \<notin> fst ` set bkvs
      \<and> ''media_id'' \<notin> fst ` set bkvs
      \<and> decode_MenuButton (JObject bkvs) MenuButton_zero = Some b
      \<longrightarrow> MenuButton_Type b = [] \<and> MenuButton_Key b = [] \<and> MenuButton_URL b = []
          \<and> MenuButton_AppID b = [] \<and> MenuButton_PagePath b = [] \<and> MenuButton_MediaID b = [])
   \<and> decode_MenuButton (JObject [(''name'', JString n), (''sub_button'', JArray js)]) MenuButton_zero
       = (case decode_MenuButtons js of None \<Rightarrow> None
          | Some bs \<Rightarrow> Some (MenuButton [] n [] [] [] [] [] (Some bs)))"
proof -
  have rule: "Language r = []"
    if "''language'' \<notin> fst ` set kvs" "decode_MenuMatchRule (JObject kvs) None = Some (Some r)"
  proof -
    from that(2) have "decode_MenuMatchRule_members kvs MenuMatchRule_zero = Some r"
      by (simp split: option.splits)
    from decode_MenuMatchRule_members_keep_Language [OF that(1) this]
    show ?thesis by (simp add: MenuMatchRule_zero_def)
  qed
  have six: "decode_MenuMatchRule
        (JObject [(''tag_id'', JString t), (''sex'', JString sx), (''country'', JString c),
                  (''province'', JString p), (''city'', JString ci),
                  (''client_platform_type'', JString cp)]) None
       = Some (Some \<lparr> TagID = t, Sex = sx, Country = c, Province = p, City = ci,
                      ClientPlatformType = cp, Language = [] \<rparr>)"
    by (simp add: MenuMatchRule_zero_def decode_MenuMatchRule_member.simps)
  have group: "MenuButton_Type b = [] \<and> MenuButton_Key b = [] \<and> MenuButton_URL b = []
          \<and> MenuButton_AppID b = [] \<and> MenuButton_PagePath b = [] \<and> MenuButton_MediaID b = []"
    if "''type'' \<notin> fst ` set bkvs" "''key'' \<notin> fst ` set bkvs" "''url'' \<notin> fst ` set bkvs"
      "''appid'' \<notin> fst ` set bkvs" "''pagepath'' \<notin> fst ` set bkvs"
      "''media_id'' \<notin> fst ` set bkvs"
      "decode_MenuButton (JObject bkvs) MenuButton_zero = Some b"
  proof -
    from that(7) have "decode_MenuButton_members bkvs MenuButton_zero = Some b"
      by simp
    from decode_MenuButton_members_keep [OF this] that(1-6)
    show ?thesis by (simp add: MenuButton_zero_def)
  qed
  have pure: "decode_MenuButton (JObject [(''name'', JString n), (''sub_button'', JArray js)])
        MenuButton_zero
       = (case decode_MenuButtons js of None \<Rightarrow> None
          | Some bs \<Rightarrow> Some (MenuButton [] n [] [] [] [] [] (Some bs)))"
    by (simp add: MenuButton_zero_def split: option.split)
  from rule six group pure show ?thesis by blast
qed

lemma TestGetMenu_decodes:
  "GetMenu_Decode TestGetMenu_response MenuInfo_zero = Some TestGetMenu_expected"
  by (simp add: TestGetMenu_response_def TestGetMenu_expected_def MenuInfo_zero_def
      DefaultMenu_zero_def ConditionalMenu_zero_def MenuMatchRule_zero_def MenuButton_zero_def
      leaf_json_def TestGetMenu_group_def TestGetMenu_matchrule_def
      decode_MenuMatchRule_member.simps)

theorem decode_absent_keys_zero_witness:
  "GetMenu_Decode TestGetMenu_response MenuInfo_zero = Some TestGetMenu_expected
   \<and> ''language'' \<notin> fst ` set [(''tag_id'', JString ''2''), (''sex'', JString ''1''),
         (''country'', JString name_china), (''province'', JString name_guangdong),
         (''city'', JString name_guangzhou), (''client_platform_type'', JString ''2'')]
   \<and> decode_MenuMatchRule TestGetMenu_matchrule None
       = Some (Some \<lparr> TagID = ''2'', Sex = ''1'', Country = name_china,
                      Province = name_guangdong, City = name_guangzhou,
                      ClientPlatformType = ''2'', Language = [] \<rparr>)
   \<and> decode_MenuButton (JObject [(''name'', JString name_menu), (''sub_button'', JArray [])])
        MenuButton_zero
       = Some (MenuButton [] name_menu [] [] [] [] [] (Some []))"
  using decode_absent_keys_zero [of
      "[(''tag_id'', JString ''2''), (''sex'', JString ''1''),
        (''country'', JString name_china), (''province'', JString name_guangdong),
        (''city'', JString name_guangzhou), (''client_platform_type'', JString ''2'')]"
      "\<lparr> TagID = ''2'', Sex = ''1'', Country = name_china, Province = name_guangdong,
         City = name_guangzhou, ClientPlatformType = ''2'', Language = [] \<rparr>"
      "''2''" "''1''" name_china name_guangdong name_guangzhou "''2''"
      "[(''name'', JString name_menu), (''sub_button'', JArray [])]"
      "MenuButton [] name_menu [] [] [] [] [] (Some [])" name_menu "[]"]
    TestGetMenu_decodes
  by (simp add: TestGetMenu_matchrule_def)

end
